theory Spec2Isabelle
  imports Main
begin

section \<open>Shared data model\<close>

text \<open>
  The API server keeps its state in relational tables reached through an ORM, in a blob
  store, in a job queue and in a vector index. Each table is a list of rows (the order of
  the list is the order in which the ORM enumerates the rows), the blob store is a map from
  keys to contents, and every exception of the TypeScript code is a value of \<open>error\<close>.
  Instants (\<open>Date\<close>) are integers (milliseconds since the epoch).
\<close>

datatype error =
    BadRequestException string
  | UnauthorizedException
  | TypeError string
  | RecordNotFound string
  | PrismaValidationError string
  | ExternalError string

text \<open>A log entry keeps the level and the text of the message with the strings that are
  interpolated into it; interpolated numbers, objects and errors are left out.\<close>

datatype log_entry = LogInfo string | LogWarn string | LogError string

text \<open>JavaScript truthiness of an optional string: \<open>undefined\<close>, \<open>null\<close> and \<open>''\<close> are falsy.\<close>

fun truthy :: "string option \<Rightarrow> bool" where
  "truthy None = False"
| "truthy (Some s) = (s \<noteq> [])"

text \<open>\<open>a || b\<close> on optional strings.\<close>

definition or_else :: "string option \<Rightarrow> string option \<Rightarrow> string option" where
  "or_else a b = (if truthy a then a else b)"

record user =
  u_id :: int
  u_uid :: string
  u_subscriptionId :: "string option"

record subscription =
  s_subscriptionId :: string
  s_uid :: string
  s_planType :: "string option"
  s_interval :: "string option"
  s_lookupKey :: string
  s_status :: string

record usage_quota =
  q_planType :: string
  q_t1TokenQuota :: int
  q_t2TokenQuota :: int

record usage_meter =
  m_meterId :: string
  m_uid :: string
  m_subscriptionId :: "string option"
  m_startAt :: int
  m_endAt :: int
  m_t1TokenQuota :: int
  m_t1TokenUsed :: int
  m_t2TokenQuota :: int
  m_t2TokenUsed :: int
  m_deletedAt :: "int option"

record token_usage_row =
  tu_uid :: string
  tu_convId :: "string option"
  tu_jobId :: "string option"
  tu_spanId :: "string option"
  tu_tier :: string
  tu_modelProvider :: string
  tu_modelName :: string
  tu_inputTokens :: int
  tu_outputTokens :: int
  tu_skillId :: string
  tu_skillTplName :: string
  tu_skillDisplayName :: string

section \<open>Subscription service: usage metering\<close>

text \<open>
  The tables of \<open>subscription.service.ts\<close>. The two calendar computations on \<open>Date\<close>
  (\<open>startOfDay\<close>, and the constructor call that adds one month) depend on the local time
  zone of the host and are parameters of the model.
\<close>

record billing =
  b_users :: "user list"
  b_subscriptions :: "subscription list"
  b_quotas :: "usage_quota list"
  b_usageMeters :: "usage_meter list"
  b_tokenUsages :: "token_usage_row list"
  b_logs :: "log_entry list"

record calendar =
  startOfDay :: "int \<Rightarrow> int"
  plusOneMonth :: "int \<Rightarrow> int"

text \<open>
  The \<open>where\<close> clause shared by \<open>checkTokenUsage\<close> (lines 229-234, with both
  \<open>new Date()\<close> read as the same instant) and \<open>updateTokenUsage\<close> (lines 310-315):
  \<open>uid\<close>, \<open>startAt: { lte: t }\<close>, \<open>endAt: { gte: t }\<close>, \<open>deletedAt: null\<close>.
\<close>

definition meterWhere :: "string \<Rightarrow> int \<Rightarrow> usage_meter \<Rightarrow> bool" where
  "meterWhere uid t m =
     (m_uid m = uid \<and> m_startAt m \<le> t \<and> m_endAt m \<ge> t \<and> m_deletedAt m = None)"

text \<open>\<open>findFirst\<close> with \<open>orderBy: { startAt: 'desc' }\<close> (lines 267-275): a row with the
  greatest \<open>startAt\<close> among the user's non-deleted meters.\<close>

fun lastMeterOf :: "usage_meter list \<Rightarrow> usage_meter option" where
  "lastMeterOf [] = None"
| "lastMeterOf (m # ms) =
     (case lastMeterOf ms of
        None \<Rightarrow> Some m
      | Some m' \<Rightarrow> if m_startAt m' > m_startAt m then Some m' else Some m)"

text \<open>
  \<open>createUsageMeter\<close> (lines 254-294). \<open>sub\<close> is \<open>None\<close> where the caller passes
  \<open>null\<close>. The object literal of the \<open>create\<close> call reads \<open>sub.subscriptionId\<close> without
  optional chaining, which raises a \<open>TypeError\<close> on \<open>null\<close> before the row is created.
\<close>

definition createUsageMeter ::
  "calendar \<Rightarrow> string \<Rightarrow> int \<Rightarrow> user \<Rightarrow> subscription option \<Rightarrow> bool \<Rightarrow> billing
     \<Rightarrow> (error + usage_meter) \<times> billing" where
  "createUsageMeter cal newMeterId now usr sub resumeLastMeter st =
     (let uid = u_uid usr;
          planType = (case sub of
                        None \<Rightarrow> ''free''
                      | Some s \<Rightarrow> (if truthy (s_planType s) then the (s_planType s) else ''free''));
          tokenQuota = find (\<lambda>q. q_planType q = planType) (b_quotas st);
          startAt =
            (if resumeLastMeter then
               (case lastMeterOf
                       (filter (\<lambda>m. m_uid m = uid \<and> m_deletedAt m = None) (b_usageMeters st)) of
                  Some lastMeter \<Rightarrow> m_endAt lastMeter
                | None \<Rightarrow> startOfDay cal now)
             else startOfDay cal now)
      in case sub of
           None \<Rightarrow>
             (Inl (TypeError ''Cannot read properties of null (reading 'subscriptionId')''), st)
         | Some s \<Rightarrow>
             (let meter =
                \<lparr> m_meterId = newMeterId,
                  m_uid = uid,
                  m_subscriptionId = Some (s_subscriptionId s),
                  m_startAt = startAt,
                  m_endAt = plusOneMonth cal startAt,
                  m_t1TokenQuota =
                    (case tokenQuota of
                       None \<Rightarrow> 0
                     | Some q \<Rightarrow> if q_t1TokenQuota q \<noteq> 0 then q_t1TokenQuota q else 0),
                  m_t1TokenUsed = 0,
                  m_t2TokenQuota =
                    (case tokenQuota of
                       None \<Rightarrow> 0
                     | Some q \<Rightarrow> if q_t2TokenQuota q \<noteq> 0 then q_t2TokenQuota q else 0),
                  m_t2TokenUsed = 0,
                  m_deletedAt = None \<rparr>
              in (Inr meter, st\<lparr>b_usageMeters := b_usageMeters st @ [meter]\<rparr>)))"

text \<open>The tier list computed from a meter (lines 243-251).\<close>

definition availableTiers :: "usage_meter \<Rightarrow> string list" where
  "availableTiers activeMeter =
     (if m_t1TokenUsed activeMeter < m_t1TokenQuota activeMeter then [''t1''] else []) @
     (if m_t2TokenUsed activeMeter < m_t2TokenQuota activeMeter then [''t2''] else [])"

text \<open>\<open>checkTokenUsage\<close> (lines 225-252), the spec's \<open>checkAvailableTiers\<close>.\<close>

definition checkTokenUsage ::
  "calendar \<Rightarrow> string \<Rightarrow> int \<Rightarrow> user \<Rightarrow> billing \<Rightarrow> (error + string list) \<times> billing" where
  "checkTokenUsage cal newMeterId now usr st =
     (case find (meterWhere (u_uid usr) now) (b_usageMeters st) of
        Some activeMeter \<Rightarrow> (Inr (availableTiers activeMeter), st)
      | None \<Rightarrow>
          (case createUsageMeter cal newMeterId now usr None True st of
             (Inl e, st') \<Rightarrow> (Inl e, st')
           | (Inr activeMeter, st') \<Rightarrow> (Inr (availableTiers activeMeter), st')))"

text \<open>The job data of \<open>updateTokenUsage\<close>, with the fields the function reads.\<close>

record token_usage =
  us_tier :: string
  us_modelProvider :: string
  us_modelName :: string
  us_inputTokens :: int
  us_outputTokens :: int

record skill_meta =
  sk_skillId :: string
  sk_tplName :: string
  sk_displayName :: string

record report_token_usage_job_data =
  d_uid :: string
  d_convId :: "string option"
  d_jobId :: "string option"
  d_spanId :: "string option"
  d_usage :: token_usage
  d_skill :: skill_meta
  d_timestamp :: int

text \<open>The \<open>data\<close> of the \<open>updateMany\<close> (lines 316-320): any tier other than \<open>'t1'\<close>
  is charged to \<open>t2TokenUsed\<close>.\<close>

definition incrementUsed :: "token_usage \<Rightarrow> usage_meter \<Rightarrow> usage_meter" where
  "incrementUsed usage m =
     (if us_tier usage = ''t1''
      then m\<lparr>m_t1TokenUsed := m_t1TokenUsed m + (us_inputTokens usage + us_outputTokens usage)\<rparr>
      else m\<lparr>m_t2TokenUsed := m_t2TokenUsed m + (us_inputTokens usage + us_outputTokens usage)\<rparr>)"

text \<open>\<open>updateTokenUsage\<close> (lines 296-323), the spec's \<open>reportUsage\<close>: one transaction that
  appends the line item and increments every meter matched by the \<open>where\<close> clause.\<close>

definition updateTokenUsage :: "report_token_usage_job_data \<Rightarrow> billing \<Rightarrow> billing" where
  "updateTokenUsage d st =
     (let usage = d_usage d; skill = d_skill d;
          row = \<lparr> tu_uid = d_uid d, tu_convId = d_convId d, tu_jobId = d_jobId d,
                  tu_spanId = d_spanId d,
                  tu_tier = us_tier usage, tu_modelProvider = us_modelProvider usage,
                  tu_modelName = us_modelName usage,
                  tu_inputTokens = us_inputTokens usage,
                  tu_outputTokens = us_outputTokens usage,
                  tu_skillId = sk_skillId skill,
                  tu_skillTplName = sk_tplName skill,
                  tu_skillDisplayName = sk_displayName skill \<rparr>
      in st\<lparr> b_tokenUsages := b_tokenUsages st @ [row],
              b_usageMeters :=
                map (\<lambda>m. if meterWhere (d_uid d) (d_timestamp d) m then incrementUsed usage m else m)
                    (b_usageMeters st) \<rparr>)"

text \<open>
  \<open>postSubscriptionCanceled\<close> (lines 103-122). The transaction updates the user found by
  \<open>uid\<close> (the ORM's \<open>update\<close> raises when there is none, and the transaction then writes
  nothing) and soft-deletes every meter of the subscription.
\<close>

definition postSubscriptionCanceled ::
  "calendar \<Rightarrow> string \<Rightarrow> int \<Rightarrow> subscription \<Rightarrow> billing \<Rightarrow> (error + unit) \<times> billing" where
  "postSubscriptionCanceled cal newMeterId now sub st =
     (case find (\<lambda>u. u_uid u = s_uid sub) (b_users st) of
        None \<Rightarrow> (Inl (RecordNotFound ''user''), st)
      | Some u0 \<Rightarrow>
          (let usr = u0\<lparr>u_subscriptionId := None\<rparr>;
               st1 = st\<lparr> b_users :=
                           map (\<lambda>u. if u_uid u = s_uid sub then u\<lparr>u_subscriptionId := None\<rparr> else u)
                               (b_users st),
                         b_usageMeters :=
                           map (\<lambda>m. if m_subscriptionId m = Some (s_subscriptionId sub)
                                     then m\<lparr>m_deletedAt := Some now\<rparr> else m)
                               (b_usageMeters st) \<rparr>
           in case createUsageMeter cal newMeterId now usr None False st1 of
                (Inl e, st2) \<Rightarrow> (Inl e, st2)
              | (Inr _, st2) \<Rightarrow> (Inr (), st2)))"

text \<open>The fields of the webhook event that \<open>handleSubscriptionUpdated\<close> reads.\<close>

record stripe_subscription =
  ev_id :: string
  ev_status :: string

text \<open>\<open>handleSubscriptionUpdated\<close> (lines 209-223).\<close>

definition handleSubscriptionUpdated ::
  "calendar \<Rightarrow> string \<Rightarrow> int \<Rightarrow> stripe_subscription \<Rightarrow> billing \<Rightarrow> (error + unit) \<times> billing" where
  "handleSubscriptionUpdated cal newMeterId now ev st =
     (let st0 = st\<lparr>b_logs := b_logs st @ [LogInfo (''Subscription updated: '' @ ev_id ev)]\<rparr>
      in case find (\<lambda>s. s_subscriptionId s = ev_id ev) (b_subscriptions st0) of
           None \<Rightarrow> (Inl (RecordNotFound ''subscription''), st0)
         | Some s0 \<Rightarrow>
             (let sub = s0\<lparr>s_status := ev_status ev\<rparr>;
                  st1 = st0\<lparr> b_subscriptions :=
                               map (\<lambda>s. if s_subscriptionId s = ev_id ev
                                         then s\<lparr>s_status := ev_status ev\<rparr> else s)
                                   (b_subscriptions st0) \<rparr>
              in if s_status sub \<noteq> ''active''
                 then postSubscriptionCanceled cal newMeterId now sub st1
                 else (Inr (), st1)))"

section \<open>Knowledge service: data\<close>

text \<open>
  The request and row types of \<open>knowledge.service.ts\<close>, with the fields the service
  reads and writes. The \<open>meta\<close> column holds \<open>JSON.stringify\<close> of a \<open>ResourceMeta\<close>
  object and is read back with \<open>JSON.parse\<close>; the model keeps the object itself, a field
  that is \<open>undefined\<close> (and so left out of the JSON text) being \<open>None\<close>. The timestamps
  the database maintains by itself are not modelled: an update leaves \<open>updatedAt\<close> as it is.
\<close>

record resource_meta =
  rm_url :: "string option"
  rm_linkId :: "string option"
  rm_title :: "string option"
  rm_storageKey :: "string option"

record upsert_resource_request =
  p_resourceId :: "string option"
  p_collectionId :: "string option"
  p_collectionName :: "string option"
  p_resourceType :: "string option"
  p_title :: "string option"
  p_data :: "resource_meta option"
  p_storageKey :: "string option"
  p_content :: "string option"
  p_isPublic :: "bool option"
  p_readOnly :: "bool option"

text \<open>\<open>FinalizeResourceParam\<close>: the request together with \<open>userId\<close> (line 225).\<close>

record finalize_resource_param =
  f_userId :: int
  f_param :: upsert_resource_request

record upsert_collection_request =
  uc_collectionId :: "string option"
  uc_title :: "string option"
  uc_description :: "string option"
  uc_isPublic :: "bool option"

record resource =
  r_resourceId :: string
  r_resourceType :: "string option"
  r_meta :: "resource_meta option"
  r_storageKey :: "string option"
  r_userId :: int
  r_isPublic :: "bool option"
  r_readOnly :: "bool option"
  r_title :: string
  r_indexStatus :: string
  r_wordCount :: "int option"
  r_collectionIds :: "string list"
  r_updatedAt :: int
  r_deletedAt :: "int option"

record collection =
  c_collectionId :: string
  c_title :: "string option"
  c_description :: "string option"
  c_userId :: int
  c_isPublic :: "bool option"
  c_updatedAt :: int
  c_deletedAt :: "int option"

record weblink =
  wl_linkId :: string
  wl_parsedDocStorageKey :: "string option"

text \<open>The argument of \<open>ragService.indexContent\<close> (lines 266-269).\<close>

record index_document =
  doc_pageContent :: string
  doc_url :: "string option"
  doc_title :: "string option"
  doc_collectionId :: "string option"
  doc_resourceId :: "string option"

record crawl_data =
  cd_content :: string
  cd_title :: "string option"

text \<open>
  The state the service works on: the tables, the blob store, the job queue, the documents
  handed to \<open>indexContent\<close> (\<open>k_indexed\<close>), the chunk lists saved for a user
  (\<open>k_saved\<close>), the resources whose index data was deleted, and the log.
\<close>

record world =
  k_users :: "user list"
  k_resources :: "resource list"
  k_collections :: "collection list"
  k_weblinks :: "weblink list"
  k_blobs :: "string \<rightharpoonup> string"
  k_queue :: "finalize_resource_param list"
  k_indexed :: "index_document list"
  k_saved :: "(int \<times> string list) list"
  k_indexDeleted :: "(int \<times> string) list"
  k_logs :: "log_entry list"

text \<open>
  The collaborators whose code is outside the repository's sources (the object store
  client, the RAG service, \<open>cleanMarkdownForIngest\<close>, \<open>readingTime\<close>) are parameters:
  what the crawler and the indexer return, and on which calls a collaborator throws.
\<close>

record services =
  crawlFromRemoteReader :: "string \<Rightarrow> error + crawl_data"
  downloadData_throws :: "string \<Rightarrow> error option"
  uploadData_throws :: "string \<Rightarrow> string \<Rightarrow> error option"
  indexContent :: "index_document \<Rightarrow> error + string list"
  saveDataForUser_throws :: "int \<Rightarrow> string list \<Rightarrow> error option"
  deleteResourceData_throws :: "int \<Rightarrow> string \<Rightarrow> error option"
  cleanMarkdownForIngest :: "string \<Rightarrow> string"
  readingTimeWords :: "string \<Rightarrow> int"

section \<open>Knowledge service: the ORM and the object store\<close>

text \<open>The ORM's \<open>update\<close>: the row selected by the \<open>where\<close> clause is changed; with no
  such row the call throws (\<open>None\<close>).\<close>

fun updateFirst :: "('a \<Rightarrow> bool) \<Rightarrow> ('a \<Rightarrow> 'a) \<Rightarrow> 'a list \<Rightarrow> 'a list option" where
  "updateFirst P f [] = None"
| "updateFirst P f (x # xs) =
     (if P x then Some (f x # xs) else map_option ((#) x) (updateFirst P f xs))"

text \<open>\<open>skip\<close> and \<open>take\<close> of \<open>findMany\<close> on the ordered rows: a negative \<open>skip\<close> is
  rejected, a negative \<open>take\<close> takes from the end of the list.\<close>

definition prismaPage :: "int \<Rightarrow> int \<Rightarrow> 'a list \<Rightarrow> error + 'a list" where
  "prismaPage skp tk xs =
     (if skp < 0 then Inl (PrismaValidationError ''skip'')
      else if 0 \<le> tk then Inr (take (nat tk) (drop (nat skp) xs))
      else Inr (rev (take (nat (- tk)) (drop (nat skp) (rev xs)))))"

text \<open>\<open>orderBy: { updatedAt: 'desc' }\<close>.\<close>

definition resourcesByUpdatedAtDesc :: "resource list \<Rightarrow> resource list" where
  "resourcesByUpdatedAtDesc rs = sort_key (\<lambda>r. - r_updatedAt r) rs"

definition collectionsByUpdatedAtDesc :: "collection list \<Rightarrow> collection list" where
  "collectionsByUpdatedAtDesc cs = sort_key (\<lambda>c. - c_updatedAt c) cs"

definition minio_downloadData :: "services \<Rightarrow> string \<Rightarrow> world \<Rightarrow> error + string" where
  "minio_downloadData sv key w =
     (case downloadData_throws sv key of
        Some e \<Rightarrow> Inl e
      | None \<Rightarrow>
          (case k_blobs w key of
             None \<Rightarrow> Inl (ExternalError ''NoSuchKey'')
           | Some c \<Rightarrow> Inr c))"

definition minio_uploadData ::
  "services \<Rightarrow> string \<Rightarrow> string \<Rightarrow> world \<Rightarrow> (error + unit) \<times> world" where
  "minio_uploadData sv key content w =
     (case uploadData_throws sv key content of
        Some e \<Rightarrow> (Inl e, w)
      | None \<Rightarrow> (Inr (), w\<lparr>k_blobs := (k_blobs w)(key \<mapsto> content)\<rparr>))"

definition logTo :: "log_entry \<Rightarrow> world \<Rightarrow> world" where
  "logTo entry w = w\<lparr>k_logs := k_logs w @ [entry]\<rparr>"

text \<open>The text of an optional string inside a template literal.\<close>

definition templateText :: "string option \<Rightarrow> string" where
  "templateText s = (case s of None \<Rightarrow> ''undefined'' | Some t \<Rightarrow> t)"

section \<open>Knowledge service: ingestion\<close>

text \<open>
  \<open>indexResource\<close> (lines 231-290) in four stages. First the storage key
  (lines 234 and 237-246): \<open>param.storageKey ||= storageKey\<close>, then the parsed document
  of the weblink when \<open>linkId\<close> names a known one.
\<close>

definition resolveStorageKey ::
  "upsert_resource_request \<Rightarrow> resource_meta \<Rightarrow> world \<Rightarrow> string option \<times> world" where
  "resolveStorageKey param d w =
     (let sk = or_else (p_storageKey param) (rm_storageKey d)
      in if truthy (rm_linkId d) then
           (case find (\<lambda>wl. wl_linkId wl = the (rm_linkId d)) (k_weblinks w) of
              None \<Rightarrow>
                (sk, logTo (LogWarn (''weblink not found for linkId: '' @ the (rm_linkId d) @
                                      '', fallback to server crawl'')) w)
            | Some wl \<Rightarrow> (wl_parsedDocStorageKey wl, w))
         else (sk, w))"

text \<open>
  Then the content (lines 235 and 248-260), for the storage key \<open>sk\<close> resolved so far: the
  result is the key under which the content lies, the content, and \<open>param.title\<close>.
\<close>

definition resolveContent ::
  "services \<Rightarrow> upsert_resource_request \<Rightarrow> resource_meta \<Rightarrow> string option \<Rightarrow> world
     \<Rightarrow> (error + string \<times> string \<times> string option) \<times> world" where
  "resolveContent sv param d sk w =
     (let content0 = (case p_content param of None \<Rightarrow> [] | Some c \<Rightarrow> c)
      in if truthy sk then
           (case minio_downloadData sv (the sk) w of
              Inl e \<Rightarrow> (Inl e, w)
            | Inr c \<Rightarrow> (Inr (the sk, c, p_title param), w))
         else
           (case (if content0 = [] \<and> truthy (rm_url d)
                  then (case crawlFromRemoteReader sv (the (rm_url d)) of
                          Inl e \<Rightarrow> Inl e
                        | Inr cd \<Rightarrow> Inr (cd_content cd, or_else (p_title param) (cd_title cd)))
                  else Inr (content0, p_title param)) of
              Inl e \<Rightarrow> (Inl e, w)
            | Inr (content, title) \<Rightarrow>
                (let key = ''resource/'' @ templateText (p_resourceId param)
                 in case minio_uploadData sv key content w of
                      (Inl e, w') \<Rightarrow> (Inl e, w')
                    | (Inr _, w') \<Rightarrow>
                        (Inr (key, content, title),
                         logTo (LogInfo (''upload resource '' @ key @ '' success'')) w'))))"

text \<open>The indexing step (lines 265-271): skipped for empty content.\<close>

definition ingestContent ::
  "services \<Rightarrow> user \<Rightarrow> upsert_resource_request \<Rightarrow> resource_meta \<Rightarrow> string \<Rightarrow> world
     \<Rightarrow> (error + unit) \<times> world" where
  "ingestContent sv usr param d content w =
     (if content \<noteq> [] then
        (let doc = \<lparr> doc_pageContent = cleanMarkdownForIngest sv content,
                      doc_url = rm_url d, doc_title = rm_title d,
                      doc_collectionId = p_collectionId param,
                      doc_resourceId = p_resourceId param \<rparr>;
             w1 = w\<lparr>k_indexed := k_indexed w @ [doc]\<rparr>
         in case indexContent sv doc of
              Inl e \<Rightarrow> (Inl e, w1)
            | Inr chunks \<Rightarrow>
                (case saveDataForUser_throws sv (u_id usr) chunks of
                   Some e \<Rightarrow> (Inl e, w1)
                 | None \<Rightarrow> (Inr (), w1\<lparr>k_saved := k_saved w1 @ [(u_id usr, chunks)]\<rparr>)))
      else (Inr (), w))"

text \<open>The row written on completion (the \<open>data\<close> of lines 279-288).\<close>

definition finishedRow ::
  "services \<Rightarrow> resource_meta \<Rightarrow> string \<Rightarrow> string \<Rightarrow> string option \<Rightarrow> resource \<Rightarrow> resource" where
  "finishedRow sv d key content title r =
     r\<lparr> r_storageKey := Some key,
        r_wordCount := Some (readingTimeWords sv content),
        r_indexStatus := ''finish'',
        r_meta := Some \<lparr> rm_url = rm_url d, rm_linkId = None, rm_title = title,
                          rm_storageKey = Some key \<rparr> \<rparr>"

text \<open>The \<open>where\<close> clause \<open>{ resourceId, userId: user.id }\<close>.\<close>

definition ownResource :: "string \<Rightarrow> user \<Rightarrow> resource \<Rightarrow> bool" where
  "ownResource rid usr r = (r_resourceId r = rid \<and> r_userId r = u_id usr)"

text \<open>The log line and the single update of lines 273-289.\<close>

definition completeResource ::
  "services \<Rightarrow> user \<Rightarrow> upsert_resource_request \<Rightarrow> resource_meta \<Rightarrow> string \<Rightarrow> string
     \<Rightarrow> string option \<Rightarrow> world \<Rightarrow> (error + unit) \<times> world" where
  "completeResource sv usr param d key content title w =
     (let w0 = logTo (LogInfo (''save resource segments for user '' @ u_uid usr @
                               '' success, resourceId: '' @ templateText (p_resourceId param))) w
      in case p_resourceId param of
           None \<Rightarrow> (Inl (PrismaValidationError ''resourceId''), w0)
         | Some rid \<Rightarrow>
             (case updateFirst (ownResource rid usr) (finishedRow sv d key content title)
                     (k_resources w0) of
                None \<Rightarrow> (Inl (RecordNotFound ''resource''), w0)
              | Some rs \<Rightarrow> (Inr (), w0\<lparr>k_resources := rs\<rparr>)))"

definition indexResource ::
  "services \<Rightarrow> user \<Rightarrow> upsert_resource_request \<Rightarrow> world \<Rightarrow> (error + unit) \<times> world" where
  "indexResource sv usr param w =
     (case p_data param of
        None \<Rightarrow> (Inl (TypeError ''Cannot destructure property 'url' of undefined''), w)
      | Some d \<Rightarrow>
          (case resolveStorageKey param d w of
             (sk, w1) \<Rightarrow>
               (case resolveContent sv param d sk w1 of
                  (Inl e, w2) \<Rightarrow> (Inl e, w2)
                | (Inr (key, content, title), w2) \<Rightarrow>
                    (case ingestContent sv usr param d content w2 of
                       (Inl e, w3) \<Rightarrow> (Inl e, w3)
                     | (Inr _, w3) \<Rightarrow> completeResource sv usr param d key content title w3))))"

text \<open>\<open>finalizeResource\<close> (lines 296-314), the handler of the ingestion job.\<close>

definition finalizeResource ::
  "services \<Rightarrow> finalize_resource_param \<Rightarrow> world \<Rightarrow> (error + unit) \<times> world" where
  "finalizeResource sv fp w =
     (case find (\<lambda>u. u_id u = f_userId fp) (k_users w) of
        None \<Rightarrow> (Inr (), logTo (LogWarn ''User not found'') w)
      | Some usr \<Rightarrow>
          (case indexResource sv usr (f_param fp) w of
             (Inr _, w') \<Rightarrow> (Inr (), w')
           | (Inl err, w') \<Rightarrow>
               (let w0 = logTo (LogError ''finalize resource error'') w'
                in case p_resourceId (f_param fp) of
                     None \<Rightarrow> (Inl (PrismaValidationError ''resourceId''), w0)
                   | Some rid \<Rightarrow>
                       (case updateFirst (ownResource rid usr)
                               (\<lambda>r. r\<lparr>r_indexStatus := ''failed''\<rparr>) (k_resources w0) of
                          None \<Rightarrow> (Inl (RecordNotFound ''resource''), w0)
                        | Some rs \<Rightarrow> (Inl err, w0\<lparr>k_resources := rs\<rparr>)))))"

section \<open>Knowledge service: resources and collections\<close>

text \<open>The \<open>create\<close> call and the enqueue of \<open>createResource\<close> (lines 201-228), for the
  request as the validation left it (its \<open>resourceId\<close> and \<open>collectionId\<close> are set by
  then); \<open>connectOrCreate\<close> adds the collection when no row has its id.\<close>

definition persistResource ::
  "int \<Rightarrow> user \<Rightarrow> upsert_resource_request \<Rightarrow> world \<Rightarrow> (error + resource) \<times> world" where
  "persistResource now usr param w =
     (let cid = templateText (p_collectionId param);
          res = \<lparr> r_resourceId = templateText (p_resourceId param),
                  r_resourceType = p_resourceType param,
                  r_meta = p_data param,
                  r_storageKey = p_storageKey param,
                  r_userId = u_id usr,
                  r_isPublic = p_isPublic param,
                  r_readOnly = p_readOnly param,
                  r_title = (if truthy (p_title param) then the (p_title param) else ''Untitled''),
                  r_indexStatus = ''processing'',
                  r_wordCount = None,
                  r_collectionIds = [cid],
                  r_updatedAt = now,
                  r_deletedAt = None \<rparr>;
          colls =
            (if find (\<lambda>c. c_collectionId c = cid) (k_collections w) = None
             then k_collections w @
                    [\<lparr> c_collectionId = cid,
                       c_title = Some (if truthy (p_collectionName param)
                                       then the (p_collectionName param)
                                       else ''Default Collection''),
                       c_description = None, c_userId = u_id usr, c_isPublic = None,
                       c_updatedAt = now, c_deletedAt = None \<rparr>]
             else k_collections w)
      in (Inr res,
          w\<lparr> k_resources := k_resources w @ [res],
             k_collections := colls,
             k_queue := k_queue w @ [\<lparr> f_userId = u_id usr, f_param = param \<rparr>] \<rparr>))"

text \<open>\<open>createResource\<close> (lines 171-229); the two generated ids are arguments.\<close>

definition createResource ::
  "string \<Rightarrow> string \<Rightarrow> int \<Rightarrow> user \<Rightarrow> upsert_resource_request \<Rightarrow> world
     \<Rightarrow> (error + resource) \<times> world" where
  "createResource newResourceId newCollectionId now usr param0 w =
     (let param1 = param0\<lparr>p_resourceId := Some newResourceId\<rparr>;
          param2 = (if \<not> truthy (p_collectionId param1)
                    then param1\<lparr>p_collectionId := Some newCollectionId\<rparr> else param1);
          w1 = (if \<not> truthy (p_collectionId param1)
                then logTo (LogInfo (''create new collection for user '' @ u_uid usr @
                                     '', collection id: '' @ newCollectionId)) w
                else w);
          param3 = (if p_readOnly param2 = None
                    then param2\<lparr>p_readOnly := Some (p_resourceType param2 = Some ''weblink'')\<rparr>
                    else param2)
      in if p_resourceType param3 = Some ''weblink'' then
           (case p_data param3 of
              None \<Rightarrow> (Inl (BadRequestException ''data is required''), w1)
            | Some d \<Rightarrow>
                if \<not> truthy (rm_url d) \<and> \<not> truthy (rm_linkId d)
                then (Inl (BadRequestException ''url or linkId is required''), w1)
                else persistResource now usr
                       (param3\<lparr>p_title := or_else (p_title param3) (rm_title d)\<rparr>) w1)
         else if p_resourceType param3 = Some ''note'' then persistResource now usr param3 w1
         else (Inl (BadRequestException ''Invalid resource type''), w1))"

text \<open>\<open>upsertCollection\<close> (lines 74-90): the row with the id is updated with the fields
  the request defines, whoever owns it; without such a row one is created for the user.\<close>

definition upsertCollection ::
  "string \<Rightarrow> int \<Rightarrow> user \<Rightarrow> upsert_collection_request \<Rightarrow> world \<Rightarrow> collection \<times> world" where
  "upsertCollection newCollectionId now usr param w =
     (let cid = (if truthy (uc_collectionId param) then the (uc_collectionId param)
                 else newCollectionId);
          upd = (\<lambda>c. c\<lparr> c_title := (case uc_title param of None \<Rightarrow> c_title c | Some t \<Rightarrow> Some t),
                         c_description := (case uc_description param of
                                             None \<Rightarrow> c_description c | Some t \<Rightarrow> Some t),
                         c_isPublic := (case uc_isPublic param of
                                          None \<Rightarrow> c_isPublic c | Some b \<Rightarrow> Some b) \<rparr>)
      in case find (\<lambda>c. c_collectionId c = cid) (k_collections w) of
           Some c \<Rightarrow>
             (upd c,
              w\<lparr>k_collections :=
                   the (updateFirst (\<lambda>c. c_collectionId c = cid) upd (k_collections w))\<rparr>)
         | None \<Rightarrow>
             (let c = \<lparr> c_collectionId = cid, c_title = uc_title param,
                        c_description = uc_description param, c_userId = u_id usr,
                        c_isPublic = uc_isPublic param, c_updatedAt = now,
                        c_deletedAt = None \<rparr>
              in (c, w\<lparr>k_collections := k_collections w @ [c]\<rparr>)))"

text \<open>\<open>deleteCollection\<close> (lines 92-109).\<close>

definition deleteCollection ::
  "int \<Rightarrow> user \<Rightarrow> string \<Rightarrow> world \<Rightarrow> (error + collection) \<times> world" where
  "deleteCollection now usr collectionId w =
     (case find (\<lambda>c. c_collectionId c = collectionId \<and> c_deletedAt c = None) (k_collections w) of
        None \<Rightarrow> (Inl (BadRequestException ''Collection not found''), w)
      | Some coll \<Rightarrow>
          if c_userId coll \<noteq> u_id usr then (Inl UnauthorizedException, w)
          else
            (case find (\<lambda>c. c_collectionId c = collectionId \<and> c_userId c = u_id usr)
                    (k_collections w) of
               None \<Rightarrow> (Inl (RecordNotFound ''collection''), w)
             | Some c \<Rightarrow>
                 (Inr (c\<lparr>c_deletedAt := Some now\<rparr>),
                  w\<lparr>k_collections :=
                       the (updateFirst
                              (\<lambda>c. c_collectionId c = collectionId \<and> c_userId c = u_id usr)
                              (\<lambda>c. c\<lparr>c_deletedAt := Some now\<rparr>) (k_collections w))\<rparr>)))"

text \<open>\<open>listCollections\<close> (lines 36-44).\<close>

definition listCollections :: "user \<Rightarrow> int \<Rightarrow> int \<Rightarrow> world \<Rightarrow> error + collection list" where
  "listCollections usr page pageSize w =
     prismaPage ((page - 1) * pageSize) pageSize
       (collectionsByUpdatedAtDesc
          (filter (\<lambda>c. c_userId c = u_id usr \<and> c_deletedAt c = None) (k_collections w)))"

record list_resources_param =
  lr_resourceId :: "string option"
  lr_collectionId :: "string option"
  lr_page :: "int option"
  lr_pageSize :: "int option"

text \<open>\<open>listResources\<close> (lines 111-145). With a \<open>collectionId\<close> the rows are the resources
  related to the first non-deleted collection of that id, as the \<open>include\<close> selects them:
  ordered and paginated, with no condition on their \<open>deletedAt\<close>.\<close>

definition listResources :: "list_resources_param \<Rightarrow> world \<Rightarrow> error + resource list" where
  "listResources param w =
     (let page = (case lr_page param of None \<Rightarrow> 1 | Some n \<Rightarrow> n);
          pageSize = (case lr_pageSize param of None \<Rightarrow> 10 | Some n \<Rightarrow> n)
      in if truthy (lr_collectionId param) then
           (case filter (\<lambda>c. c_collectionId c = the (lr_collectionId param) \<and> c_deletedAt c = None)
                   (k_collections w) of
              [] \<Rightarrow> (case prismaPage ((page - 1) * pageSize) pageSize ([] :: resource list) of
                       Inl e \<Rightarrow> Inl e | Inr _ \<Rightarrow> Inr [])
            | c # _ \<Rightarrow>
                prismaPage ((page - 1) * pageSize) pageSize
                  (resourcesByUpdatedAtDesc
                     (filter (\<lambda>r. c_collectionId c \<in> set (r_collectionIds r)) (k_resources w))))
         else
           prismaPage ((page - 1) * pageSize) pageSize
             (resourcesByUpdatedAtDesc
                (filter (\<lambda>r. (case lr_resourceId param of
                                 None \<Rightarrow> True | Some rid \<Rightarrow> r_resourceId r = rid)
                              \<and> r_deletedAt r = None)
                   (k_resources w))))"

text \<open>\<open>updateResource\<close> (lines 316-328): the content is uploaded under the key of the
  request before the row is looked up; the object store rejects a missing key.\<close>

definition updateResource ::
  "services \<Rightarrow> user \<Rightarrow> upsert_resource_request \<Rightarrow> world \<Rightarrow> (error + resource) \<times> world" where
  "updateResource sv usr param w =
     (let updates = (\<lambda>r. r\<lparr> r_title := (case p_title param of None \<Rightarrow> r_title r | Some t \<Rightarrow> t),
                             r_isPublic := (case p_isPublic param of
                                              None \<Rightarrow> r_isPublic r | Some b \<Rightarrow> Some b),
                             r_readOnly := (case p_readOnly param of
                                              None \<Rightarrow> r_readOnly r | Some b \<Rightarrow> Some b),
                             r_meta := (case p_data param of
                                          None \<Rightarrow> r_meta r | Some d \<Rightarrow> Some d) \<rparr>);
          uploaded =
            (if truthy (p_content param) then
               (case p_storageKey param of
                  None \<Rightarrow> (Inl (ExternalError ''InvalidObjectName''), w)
                | Some key \<Rightarrow> minio_uploadData sv key (the (p_content param)) w)
             else (Inr (), w))
      in case uploaded of
           (Inl e, w1) \<Rightarrow> (Inl e, w1)
         | (Inr _, w1) \<Rightarrow>
             (case p_resourceId param of
                None \<Rightarrow> (Inl (PrismaValidationError ''resourceId''), w1)
              | Some rid \<Rightarrow>
                  (case find (ownResource rid usr) (k_resources w1) of
                     None \<Rightarrow> (Inl (RecordNotFound ''resource''), w1)
                   | Some r \<Rightarrow>
                       (Inr (updates r),
                        w1\<lparr>k_resources :=
                             the (updateFirst (ownResource rid usr) updates (k_resources w1))\<rparr>))))"

text \<open>\<open>deleteResource\<close> (lines 330-348): both calls of the \<open>Promise.all\<close> are started, so
  the row is soft-deleted also when the deletion of the index data throws.\<close>

definition deleteResource ::
  "services \<Rightarrow> int \<Rightarrow> user \<Rightarrow> string \<Rightarrow> world \<Rightarrow> (error + unit) \<times> world" where
  "deleteResource sv now usr resourceId w =
     (case find (\<lambda>r. r_resourceId r = resourceId \<and> r_deletedAt r = None) (k_resources w) of
        None \<Rightarrow> (Inl (BadRequestException ''Resource not found''), w)
      | Some res \<Rightarrow>
          if r_userId res \<noteq> u_id usr then (Inl UnauthorizedException, w)
          else
            (let rs = the (updateFirst (\<lambda>r. r_resourceId r = resourceId)
                             (\<lambda>r. r\<lparr>r_deletedAt := Some now\<rparr>) (k_resources w))
             in case deleteResourceData_throws sv (u_id usr) resourceId of
                  Some e \<Rightarrow> (Inl e, w\<lparr>k_resources := rs\<rparr>)
                | None \<Rightarrow>
                    (Inr (), w\<lparr> k_resources := rs,
                                k_indexDeleted := k_indexDeleted w @ [(u_id usr, resourceId)] \<rparr>)))"

section \<open>Example data\<close>

text \<open>A calendar in UTC with a month of 31 days, and a small billing database: one user
  on a paid subscription with its meter over the window from 0 to 10.\<close>

definition exampleCalendar :: calendar where
  "exampleCalendar =
     \<lparr> startOfDay = (\<lambda>t. t - t mod 86400000), plusOneMonth = (\<lambda>t. t + 2678400000) \<rparr>"

definition exampleUser :: user where
  "exampleUser = \<lparr> u_id = 1, u_uid = ''u1'', u_subscriptionId = Some ''sub_1'' \<rparr>"

definition exampleSubscription :: subscription where
  "exampleSubscription =
     \<lparr> s_subscriptionId = ''sub_1'', s_uid = ''u1'', s_planType = Some ''pro'',
       s_interval = Some ''monthly'', s_lookupKey = ''pro_monthly'', s_status = ''active'' \<rparr>"

definition exampleMeter :: usage_meter where
  "exampleMeter =
     \<lparr> m_meterId = ''um1'', m_uid = ''u1'', m_subscriptionId = Some ''sub_1'',
       m_startAt = 0, m_endAt = 10,
       m_t1TokenQuota = 100, m_t1TokenUsed = 99,
       m_t2TokenQuota = 10, m_t2TokenUsed = 0, m_deletedAt = None \<rparr>"

text \<open>A second meter of the same user over the same window, with both quotas used up.\<close>

definition exhaustedMeter :: usage_meter where
  "exhaustedMeter =
     \<lparr> m_meterId = ''um0'', m_uid = ''u1'', m_subscriptionId = Some ''sub_0'',
       m_startAt = 0, m_endAt = 10,
       m_t1TokenQuota = 100, m_t1TokenUsed = 100,
       m_t2TokenQuota = 10, m_t2TokenUsed = 10, m_deletedAt = None \<rparr>"

definition exampleBilling :: billing where
  "exampleBilling =
     \<lparr> b_users = [exampleUser],
       b_subscriptions = [exampleSubscription],
       b_quotas = [\<lparr> q_planType = ''free'', q_t1TokenQuota = 100, q_t2TokenQuota = 10 \<rparr>],
       b_usageMeters = [exampleMeter],
       b_tokenUsages = [],
       b_logs = [] \<rparr>"

definition exampleUsage :: "int \<Rightarrow> report_token_usage_job_data" where
  "exampleUsage ts =
     \<lparr> d_uid = ''u1'', d_convId = None, d_jobId = None, d_spanId = None,
       d_usage = \<lparr> us_tier = ''t1'', us_modelProvider = ''p'', us_modelName = ''n'',
                   us_inputTokens = 1, us_outputTokens = 0 \<rparr>,
       d_skill = \<lparr> sk_skillId = ''s'', sk_tplName = ''tpl'', sk_displayName = ''Skill'' \<rparr>,
       d_timestamp = ts \<rparr>"

text \<open>A knowledge base with one user, one collection of that user and one resource in it
  that waits for ingestion; collaborators that never throw; and the job of that resource.\<close>

definition exampleIntruder :: user where
  "exampleIntruder = \<lparr> u_id = 2, u_uid = ''u2'', u_subscriptionId = None \<rparr>"

definition exampleRequest :: upsert_resource_request where
  "exampleRequest =
     \<lparr> p_resourceId = Some ''r1'', p_collectionId = Some ''c1'', p_collectionName = None,
       p_resourceType = Some ''weblink'', p_title = None,
       p_data = Some \<lparr> rm_url = Some ''https://example.com'', rm_linkId = None,
                       rm_title = None, rm_storageKey = None \<rparr>,
       p_storageKey = None, p_content = None, p_isPublic = None, p_readOnly = Some True \<rparr>"

definition exampleResource :: resource where
  "exampleResource =
     \<lparr> r_resourceId = ''r1'', r_resourceType = Some ''weblink'',
       r_meta = p_data exampleRequest, r_storageKey = None, r_userId = 1,
       r_isPublic = None, r_readOnly = Some True, r_title = ''Untitled'',
       r_indexStatus = ''processing'', r_wordCount = None, r_collectionIds = [''c1''],
       r_updatedAt = 1, r_deletedAt = None \<rparr>"

definition exampleCollection :: collection where
  "exampleCollection =
     \<lparr> c_collectionId = ''c1'', c_title = Some ''Reading list'', c_description = None,
       c_userId = 1, c_isPublic = None, c_updatedAt = 1, c_deletedAt = None \<rparr>"

definition exampleWorld :: world where
  "exampleWorld =
     \<lparr> k_users = [exampleUser], k_resources = [exampleResource],
       k_collections = [exampleCollection], k_weblinks = [], k_blobs = Map.empty,
       k_queue = [], k_indexed = [], k_saved = [], k_indexDeleted = [], k_logs = [] \<rparr>"

definition exampleServices :: services where
  "exampleServices =
     \<lparr> crawlFromRemoteReader = (\<lambda>url. Inr \<lparr> cd_content = ''page text'', cd_title = Some ''Page'' \<rparr>),
       downloadData_throws = (\<lambda>key. None),
       uploadData_throws = (\<lambda>key content. None),
       indexContent = (\<lambda>doc. Inr [doc_pageContent doc]),
       saveDataForUser_throws = (\<lambda>uid chunks. None),
       deleteResourceData_throws = (\<lambda>uid rid. None),
       cleanMarkdownForIngest = (\<lambda>s. s),
       readingTimeWords = (\<lambda>s. 2) \<rparr>"

definition exampleJob :: finalize_resource_param where
  "exampleJob = \<lparr> f_userId = 1, f_param = exampleRequest \<rparr>"

section \<open>Usage metering: properties\<close>

lemma createUsageMeter_null:
  "createUsageMeter cal newMeterId now usr None resume st =
     (Inl (TypeError ''Cannot read properties of null (reading 'subscriptionId')''), st)"
  by (simp add: createUsageMeter_def Let_def)

lemma find_map_invariant:
  "(\<And>x. P (f x) = P x) \<Longrightarrow> find P (map f xs) = map_option f (find P xs)"
  by (induction xs) auto

lemma find_Some_ex: "(\<exists>y. find P xs = Some y) = (\<exists>x \<in> set xs. P x)"
  by (induction xs) auto

lemma meterWhere_incrementUsed [simp]:
  "meterWhere uid t (incrementUsed usage m) = meterWhere uid t m"
  by (simp add: meterWhere_def incrementUsed_def)

lemma find_after_update:
  "find (meterWhere uid t) (b_usageMeters (updateTokenUsage d st)) =
     map_option
       (\<lambda>m. if meterWhere (d_uid d) (d_timestamp d) m then incrementUsed (d_usage d) m else m)
       (find (meterWhere uid t) (b_usageMeters st))"
  by (simp add: updateTokenUsage_def Let_def find_map_invariant)

lemma checkTokenUsage_active:
  "find (meterWhere (u_uid usr) now) (b_usageMeters st) = Some m \<Longrightarrow>
   checkTokenUsage cal mid now usr st = (Inr (availableTiers m), st)"
  by (simp add: checkTokenUsage_def)

lemma checkTokenUsage_no_active:
  "find (meterWhere (u_uid usr) now) (b_usageMeters st) = None \<Longrightarrow>
   checkTokenUsage cal mid now usr st =
     (Inl (TypeError ''Cannot read properties of null (reading 'subscriptionId')''), st)"
  by (simp add: checkTokenUsage_def createUsageMeter_null)

text \<open>
  C4. A \<open>customer.subscription.updated\<close> event with status \<open>canceled\<close> for the known
  subscription \<open>sub_1\<close>: the handler records the status, clears the user's
  \<open>subscriptionId\<close> and soft-deletes the subscription's meter, and then fails with a
  \<open>TypeError\<close> inside \<open>createUsageMeter\<close>: the meter table still has one row, the
  soft-deleted one, and no free-tier meter has been created.
\<close>

theorem subscription_canceled_creates_no_meter:
  "handleSubscriptionUpdated exampleCalendar ''um2'' 5
       \<lparr> ev_id = ''sub_1'', ev_status = ''canceled'' \<rparr> exampleBilling =
     (Inl (TypeError ''Cannot read properties of null (reading 'subscriptionId')''),
      exampleBilling
        \<lparr> b_users := [exampleUser\<lparr>u_subscriptionId := None\<rparr>],
          b_subscriptions := [exampleSubscription\<lparr>s_status := ''canceled''\<rparr>],
          b_usageMeters := [exampleMeter\<lparr>m_deletedAt := Some 5\<rparr>],
          b_logs := [LogInfo ''Subscription updated: sub_1''] \<rparr>)"
  by (simp add: handleSubscriptionUpdated_def postSubscriptionCanceled_def
      createUsageMeter_null exampleBilling_def exampleUser_def exampleSubscription_def
      exampleMeter_def Let_def)

text \<open>
  C5 as stated fails: the meter of the example has \<open>endAt = 10\<close>, and at the instant 10
  it is outside the half-open window but \<open>checkTokenUsage\<close> answers from it and
  \<open>updateTokenUsage\<close> increments it.
\<close>

theorem meter_window_half_open_counterexample:
  "\<not> (m_startAt exampleMeter \<le> 10 \<and> 10 < m_endAt exampleMeter) \<and>
   checkTokenUsage exampleCalendar ''um2'' 10 exampleUser exampleBilling =
     (Inr [''t1'', ''t2''], exampleBilling) \<and>
   b_usageMeters (updateTokenUsage (exampleUsage 10) exampleBilling) =
     [exampleMeter\<lparr>m_t1TokenUsed := 100\<rparr>]"
  by (simp add: checkTokenUsage_def updateTokenUsage_def meterWhere_def availableTiers_def
      incrementUsed_def exampleUsage_def exampleBilling_def exampleUser_def exampleMeter_def
      Let_def)

text \<open>
  C5, amended. The window of a usage meter is closed, \<open>[startAt, endAt]\<close>: a
  non-deleted meter of the user is matched by \<open>checkTokenUsage\<close> at the instant \<open>t\<close>, and
  incremented by \<open>updateTokenUsage\<close> for the usage timestamp \<open>t\<close>, exactly when
  \<open>startAt \<le> t \<le> endAt\<close>; a meter whose \<open>endAt\<close> equals \<open>t\<close> is matched.
  \<open>checkTokenUsage\<close> finds a meter exactly when the user has one with \<open>t\<close> in its closed
  window, the meter it answers from has \<open>t\<close> in its closed window, and
  \<open>updateTokenUsage\<close> increments exactly the meters with the timestamp in their closed
  window.
\<close>

theorem meter_window_closed:
  "((\<exists>m'. find (meterWhere uid t) (b_usageMeters st) = Some m') =
      (\<exists>m \<in> set (b_usageMeters st).
          m_uid m = uid \<and> m_deletedAt m = None \<and> m_startAt m \<le> t \<and> t \<le> m_endAt m)) \<and>
   (find (meterWhere (u_uid usr) t) (b_usageMeters st) = Some m' \<longrightarrow>
      m_startAt m' \<le> t \<and> t \<le> m_endAt m' \<and>
      checkTokenUsage cal mid t usr st = (Inr (availableTiers m'), st)) \<and>
   b_usageMeters (updateTokenUsage d st) =
     map (\<lambda>m. if m_uid m = d_uid d \<and> m_deletedAt m = None \<and>
                  m_startAt m \<le> d_timestamp d \<and> d_timestamp d \<le> m_endAt m
               then incrementUsed (d_usage d) m else m)
         (b_usageMeters st)"
proof (intro conjI impI)
  show "(\<exists>m'. find (meterWhere uid t) (b_usageMeters st) = Some m') =
      (\<exists>m \<in> set (b_usageMeters st).
          m_uid m = uid \<and> m_deletedAt m = None \<and> m_startAt m \<le> t \<and> t \<le> m_endAt m)"
    by (auto simp: find_Some_ex meterWhere_def)
next
  assume found: "find (meterWhere (u_uid usr) t) (b_usageMeters st) = Some m'"
  then have "meterWhere (u_uid usr) t m'"
    by (auto simp: find_Some_iff)
  then show "m_startAt m' \<le> t" and "t \<le> m_endAt m'"
    by (simp_all add: meterWhere_def)
  show "checkTokenUsage cal mid t usr st = (Inr (availableTiers m'), st)"
    using found by (rule checkTokenUsage_active)
next
  show "b_usageMeters (updateTokenUsage d st) =
     map (\<lambda>m. if m_uid m = d_uid d \<and> m_deletedAt m = None \<and>
                  m_startAt m \<le> d_timestamp d \<and> d_timestamp d \<le> m_endAt m
               then incrementUsed (d_usage d) m else m)
         (b_usageMeters st)"
    by (auto simp: updateTokenUsage_def Let_def meterWhere_def)
qed

theorem meter_window_closed_witness:
  "find (meterWhere ''u1'' 10) (b_usageMeters exampleBilling) = Some exampleMeter \<and>
   exampleMeter \<in> set (b_usageMeters exampleBilling) \<and>
   m_startAt exampleMeter \<le> 10 \<and> 10 \<le> m_endAt exampleMeter \<and>
   checkTokenUsage exampleCalendar ''um2'' 10 exampleUser exampleBilling =
     (Inr (availableTiers exampleMeter), exampleBilling)"
  using meter_window_closed [of "''u1''" 10 exampleBilling exampleUser exampleMeter
      exampleCalendar "''um2''" "exampleUsage 10"]
  by (simp add: meterWhere_def exampleBilling_def exampleUser_def exampleMeter_def)

text \<open>
  C6 as stated fails for an active meter that is not the one the query returns: the user
  has two meters over the same window, \<open>exhaustedMeter\<close> listed first. \<open>exampleMeter\<close>
  is active at the instant 3 with \<open>t1TokenUsed = t1TokenQuota - 1\<close>, but
  \<open>checkTokenUsage\<close> answers from the first matching meter and reports no tier.
\<close>

theorem quota_boundary_counterexample:
  "exampleMeter \<in> set (b_usageMeters (exampleBilling\<lparr>b_usageMeters := [exhaustedMeter, exampleMeter]\<rparr>)) \<and>
   meterWhere (u_uid exampleUser) 3 exampleMeter \<and>
   m_t1TokenUsed exampleMeter = m_t1TokenQuota exampleMeter - 1 \<and>
   checkTokenUsage exampleCalendar ''um2'' 3 exampleUser
       (exampleBilling\<lparr>b_usageMeters := [exhaustedMeter, exampleMeter]\<rparr>) =
     (Inr [], exampleBilling\<lparr>b_usageMeters := [exhaustedMeter, exampleMeter]\<rparr>)"
  by (simp add: checkTokenUsage_def meterWhere_def availableTiers_def exampleBilling_def
      exampleUser_def exampleMeter_def exhaustedMeter_def)

text \<open>
  C6, amended. Let \<open>m\<close> be the meter that \<open>checkTokenUsage\<close> answers from for the user
  (the first meter the query matches), at the instant \<open>now\<close> of a first check and at the
  instant \<open>now'\<close> of a second, and let one \<open>updateTokenUsage\<close> of the user, of any tier
  and any token counts, have its timestamp in the window of \<open>m\<close>. The first check returns
  the tiers of \<open>m\<close>, a tier being reported exactly when \<open>used < quota\<close>. After the update
  the second check answers from the meter \<open>m'\<close>, which is \<open>m\<close> with the counter of the
  usage's tier (\<open>t1\<close> for tier \<open>t1\<close>, \<open>t2\<close> otherwise) raised by
  \<open>inputTokens + outputTokens\<close> and the quotas as they were, again by \<open>used < quota\<close>. In
  particular, with \<open>t1TokenUsed = t1TokenQuota - 1\<close>, tier \<open>t1\<close> and
  \<open>inputTokens + outputTokens = 1\<close>, the first check reports \<open>t1\<close> and the second does not.
\<close>

theorem quota_boundary:
  assumes found1: "find (meterWhere (u_uid usr) now) (b_usageMeters st) = Some m"
      and found2: "find (meterWhere (u_uid usr) now') (b_usageMeters st) = Some m"
      and same_user: "d_uid d = u_uid usr"
      and lands: "meterWhere (u_uid usr) (d_timestamp d) m"
  shows "fst (checkTokenUsage cal mid now usr st) = Inr (availableTiers m) \<and>
         (''t1'' \<in> set (availableTiers m)) = (m_t1TokenUsed m < m_t1TokenQuota m) \<and>
         (''t2'' \<in> set (availableTiers m)) = (m_t2TokenUsed m < m_t2TokenQuota m) \<and>
         (\<exists>m'. find (meterWhere (u_uid usr) now') (b_usageMeters (updateTokenUsage d st)) = Some m' \<and>
            fst (checkTokenUsage cal mid' now' usr (updateTokenUsage d st))
              = Inr (availableTiers m') \<and>
            m_t1TokenQuota m' = m_t1TokenQuota m \<and>
            m_t2TokenQuota m' = m_t2TokenQuota m \<and>
            m_t1TokenUsed m' = m_t1TokenUsed m +
              (if us_tier (d_usage d) = ''t1''
               then us_inputTokens (d_usage d) + us_outputTokens (d_usage d) else 0) \<and>
            m_t2TokenUsed m' = m_t2TokenUsed m +
              (if us_tier (d_usage d) = ''t1''
               then 0 else us_inputTokens (d_usage d) + us_outputTokens (d_usage d)) \<and>
            (''t1'' \<in> set (availableTiers m')) = (m_t1TokenUsed m' < m_t1TokenQuota m') \<and>
            (''t2'' \<in> set (availableTiers m')) = (m_t2TokenUsed m' < m_t2TokenQuota m')) \<and>
         (m_t1TokenUsed m = m_t1TokenQuota m - 1 \<and> us_tier (d_usage d) = ''t1'' \<and>
          us_inputTokens (d_usage d) + us_outputTokens (d_usage d) = 1 \<longrightarrow>
            (\<exists>tiers. fst (checkTokenUsage cal mid now usr st) = Inr tiers \<and> ''t1'' \<in> set tiers) \<and>
            (\<exists>tiers'. fst (checkTokenUsage cal mid' now' usr (updateTokenUsage d st)) = Inr tiers'
                        \<and> ''t1'' \<notin> set tiers'))"
proof -
  have strict: "(''t1'' \<in> set (availableTiers x)) = (m_t1TokenUsed x < m_t1TokenQuota x)"
               "(''t2'' \<in> set (availableTiers x)) = (m_t2TokenUsed x < m_t2TokenQuota x)" for x
    by (simp_all add: availableTiers_def)
  have before: "fst (checkTokenUsage cal mid now usr st) = Inr (availableTiers m)"
    using found1 by (simp add: checkTokenUsage_def)
  let ?m' = "incrementUsed (d_usage d) m"
  have found':
    "find (meterWhere (u_uid usr) now') (b_usageMeters (updateTokenUsage d st)) = Some ?m'"
    using found2 lands same_user by (simp add: find_after_update)
  have after:
    "fst (checkTokenUsage cal mid' now' usr (updateTokenUsage d st)) = Inr (availableTiers ?m')"
    using found' by (simp add: checkTokenUsage_def)
  have quotas: "m_t1TokenQuota ?m' = m_t1TokenQuota m" "m_t2TokenQuota ?m' = m_t2TokenQuota m"
    by (simp_all add: incrementUsed_def)
  have used1: "m_t1TokenUsed ?m' = m_t1TokenUsed m +
      (if us_tier (d_usage d) = ''t1''
       then us_inputTokens (d_usage d) + us_outputTokens (d_usage d) else 0)"
    by (simp add: incrementUsed_def)
  have used2: "m_t2TokenUsed ?m' = m_t2TokenUsed m +
      (if us_tier (d_usage d) = ''t1''
       then 0 else us_inputTokens (d_usage d) + us_outputTokens (d_usage d))"
    by (simp add: incrementUsed_def)
  have edge: "''t1'' \<in> set (availableTiers m) \<and> ''t1'' \<notin> set (availableTiers ?m')"
    if "m_t1TokenUsed m = m_t1TokenQuota m - 1" "us_tier (d_usage d) = ''t1''"
       "us_inputTokens (d_usage d) + us_outputTokens (d_usage d) = 1"
    using that used1 quotas(1) by (simp add: strict)
  have updated: "\<exists>m'. find (meterWhere (u_uid usr) now') (b_usageMeters (updateTokenUsage d st)) = Some m' \<and>
            fst (checkTokenUsage cal mid' now' usr (updateTokenUsage d st))
              = Inr (availableTiers m') \<and>
            m_t1TokenQuota m' = m_t1TokenQuota m \<and>
            m_t2TokenQuota m' = m_t2TokenQuota m \<and>
            m_t1TokenUsed m' = m_t1TokenUsed m +
              (if us_tier (d_usage d) = ''t1''
               then us_inputTokens (d_usage d) + us_outputTokens (d_usage d) else 0) \<and>
            m_t2TokenUsed m' = m_t2TokenUsed m +
              (if us_tier (d_usage d) = ''t1''
               then 0 else us_inputTokens (d_usage d) + us_outputTokens (d_usage d)) \<and>
            (''t1'' \<in> set (availableTiers m')) = (m_t1TokenUsed m' < m_t1TokenQuota m') \<and>
            (''t2'' \<in> set (availableTiers m')) = (m_t2TokenUsed m' < m_t2TokenQuota m')"
    using found' after quotas used1 used2 strict [of ?m'] by blast
  show ?thesis
    using before strict [of m] updated edge after by simp
qed

theorem quota_boundary_witness:
  "find (meterWhere (u_uid exampleUser) 3) (b_usageMeters exampleBilling) = Some exampleMeter \<and>
   find (meterWhere (u_uid exampleUser) 4) (b_usageMeters exampleBilling) = Some exampleMeter \<and>
   d_uid (exampleUsage 3) = u_uid exampleUser \<and>
   meterWhere (u_uid exampleUser) (d_timestamp (exampleUsage 3)) exampleMeter \<and>
   m_t1TokenUsed exampleMeter = m_t1TokenQuota exampleMeter - 1 \<and>
   us_tier (d_usage (exampleUsage 3)) = ''t1'' \<and>
   us_inputTokens (d_usage (exampleUsage 3)) + us_outputTokens (d_usage (exampleUsage 3)) = 1 \<and>
   (\<exists>tiers. fst (checkTokenUsage exampleCalendar ''um2'' 3 exampleUser exampleBilling) = Inr tiers
             \<and> ''t1'' \<in> set tiers) \<and>
   (\<exists>tiers'. fst (checkTokenUsage exampleCalendar ''um3'' 4 exampleUser
                     (updateTokenUsage (exampleUsage 3) exampleBilling)) = Inr tiers'
              \<and> ''t1'' \<notin> set tiers')"
proof -
  have h1: "find (meterWhere (u_uid exampleUser) 3) (b_usageMeters exampleBilling) = Some exampleMeter"
    by (simp add: meterWhere_def exampleBilling_def exampleUser_def exampleMeter_def)
  have h2: "find (meterWhere (u_uid exampleUser) 4) (b_usageMeters exampleBilling) = Some exampleMeter"
    by (simp add: meterWhere_def exampleBilling_def exampleUser_def exampleMeter_def)
  have h3: "d_uid (exampleUsage 3) = u_uid exampleUser"
    by (simp add: exampleUsage_def exampleUser_def)
  have h4: "meterWhere (u_uid exampleUser) (d_timestamp (exampleUsage 3)) exampleMeter"
    by (simp add: meterWhere_def exampleUsage_def exampleUser_def exampleMeter_def)
  have e1: "m_t1TokenUsed exampleMeter = m_t1TokenQuota exampleMeter - 1"
    by (simp add: exampleMeter_def)
  have e2: "us_tier (d_usage (exampleUsage 3)) = ''t1''"
    by (simp add: exampleUsage_def)
  have e3: "us_inputTokens (d_usage (exampleUsage 3)) + us_outputTokens (d_usage (exampleUsage 3)) = 1"
    by (simp add: exampleUsage_def)
  show ?thesis
    using quota_boundary [OF h1 h2 h3 h4, of exampleCalendar "''um2''" "''um3''"]
      h1 h2 h3 h4 e1 e2 e3
    by blast
qed

text \<open>
  C9. The user of the example with no meter at all: \<open>checkTokenUsage\<close> finds no active
  meter, calls \<open>createUsageMeter\<close> with \<open>null\<close> for the subscription, and fails with a
  \<open>TypeError\<close>; it returns no tier set and creates no meter, so a second call meets the
  same state and fails the same way.
\<close>

theorem lazy_meter_creation_fails:
  "checkTokenUsage exampleCalendar ''um2'' 5 exampleUser (exampleBilling\<lparr>b_usageMeters := []\<rparr>) =
     (Inl (TypeError ''Cannot read properties of null (reading 'subscriptionId')''),
      exampleBilling\<lparr>b_usageMeters := []\<rparr>)"
  by (simp add: checkTokenUsage_def createUsageMeter_null)

section \<open>Ingestion: properties\<close>

lemma logTo_frame [simp]:
  "k_resources (logTo entry w) = k_resources w"
  "k_blobs (logTo entry w) = k_blobs w"
  "k_indexed (logTo entry w) = k_indexed w"
  "k_saved (logTo entry w) = k_saved w"
  by (simp_all add: logTo_def)

lemma resolveStorageKey_frame:
  "k_resources (snd (resolveStorageKey param d w)) = k_resources w"
  "k_blobs (snd (resolveStorageKey param d w)) = k_blobs w"
  "k_indexed (snd (resolveStorageKey param d w)) = k_indexed w"
  "k_saved (snd (resolveStorageKey param d w)) = k_saved w"
  by (simp_all add: resolveStorageKey_def Let_def split: option.splits)

lemma minio_uploadData_ok:
  "minio_uploadData sv key content w = (Inr u, w') \<Longrightarrow>
     k_blobs w' key = Some content \<and> k_resources w' = k_resources w"
  by (auto simp: minio_uploadData_def split: option.splits)

lemma minio_uploadData_err:
  "minio_uploadData sv key content w = (Inl e, w') \<Longrightarrow> w' = w"
  by (auto simp: minio_uploadData_def split: option.splits)

lemma minio_downloadData_ok:
  "minio_downloadData sv key w = Inr c \<Longrightarrow> k_blobs w key = Some c"
  by (auto simp: minio_downloadData_def split: option.splits)

lemma resolveContent_ok:
  assumes "resolveContent sv param d sk w = (Inr (key, content, title), w2)"
  shows "key = (if truthy sk then the sk else ''resource/'' @ templateText (p_resourceId param))"
    and "k_blobs w2 key = Some content"
    and "k_resources w2 = k_resources w"
  using assms
  by (auto simp: resolveContent_def Let_def
      dest!: minio_uploadData_ok minio_downloadData_ok
      split: if_splits sum.splits prod.splits)

lemma resolveContent_err:
  assumes "resolveContent sv param d sk w = (Inl e, w2)"
  shows "w2 = w"
  using assms
  by (auto simp: resolveContent_def Let_def
      dest!: minio_uploadData_err
      split: if_splits sum.splits prod.splits)

lemma ingestContent_frame:
  assumes "ingestContent sv usr param d content w = (res, w3)"
  shows "k_resources w3 = k_resources w" and "k_blobs w3 = k_blobs w"
  using assms
  by (auto simp: ingestContent_def Let_def split: if_splits sum.splits option.splits)

lemma completeResource_ok:
  assumes "completeResource sv usr param d key content title w = (Inr u, w')"
  shows "\<exists>rid. p_resourceId param = Some rid \<and>
           updateFirst (ownResource rid usr) (finishedRow sv d key content title) (k_resources w)
             = Some (k_resources w') \<and> k_blobs w' = k_blobs w"
  using assms
  by (auto simp: completeResource_def Let_def split: option.splits)

lemma completeResource_err:
  assumes "completeResource sv usr param d key content title w = (Inl e, w')"
  shows "k_resources w' = k_resources w"
  using assms
  by (auto simp: completeResource_def Let_def split: option.splits)

lemma updateFirst_Some_member:
  "updateFirst P f xs = Some ys \<Longrightarrow> \<exists>x \<in> set xs. P x \<and> f x \<in> set ys"
  by (induction xs arbitrary: ys) (auto split: if_splits)

lemma updateFirst_Some_iff: "(\<exists>ys. updateFirst P f xs = Some ys) = (\<exists>x \<in> set xs. P x)"
  by (induction xs) auto

lemma indexResource_err_resources:
  assumes "indexResource sv usr param w = (Inl e, w')"
  shows "k_resources w' = k_resources w"
proof (cases "p_data param")
  case None
  with assms show ?thesis by (simp add: indexResource_def)
next
  case (Some d)
  obtain sk w1 where rs: "resolveStorageKey param d w = (sk, w1)"
    by (cases "resolveStorageKey param d w")
  have r1: "k_resources w1 = k_resources w"
    using resolveStorageKey_frame(1) [of param d w] rs by simp
  obtain res2 w2 where rc: "resolveContent sv param d sk w1 = (res2, w2)"
    by (cases "resolveContent sv param d sk w1")
  show ?thesis
  proof (cases res2)
    case (Inl e2)
    with assms Some rs rc resolveContent_err [of sv param d sk w1 e2 w2] r1
    show ?thesis by (simp add: indexResource_def)
  next
    case (Inr t)
    obtain key content title where t: "t = (key, content, title)"
      by (cases t)
    have r2: "k_resources w2 = k_resources w1"
      using resolveContent_ok(3) rc Inr t by blast
    obtain res3 w3 where ic: "ingestContent sv usr param d content w2 = (res3, w3)"
      by (cases "ingestContent sv usr param d content w2")
    have r3: "k_resources w3 = k_resources w2"
      using ingestContent_frame(1) [OF ic] .
    show ?thesis
    proof (cases res3)
      case (Inl e3)
      with assms Some rs rc Inr t ic r1 r2 r3 show ?thesis
        by (simp add: indexResource_def)
    next
      case (Inr u)
      with assms Some rs rc \<open>res2 = Inr t\<close> t ic
      have "completeResource sv usr param d key content title w3 = (Inl e, w')"
        by (simp add: indexResource_def)
      from completeResource_err [OF this] r1 r2 r3 show ?thesis by simp
    qed
  qed
qed

lemma indexResource_resolution_err:
  assumes "p_data param = Some d"
      and "isl (fst (resolveContent sv param d (fst (resolveStorageKey param d w))
                       (snd (resolveStorageKey param d w))))"
  shows "snd (indexResource sv usr param w) = snd (resolveStorageKey param d w)"
proof -
  obtain sk w1 where rs: "resolveStorageKey param d w = (sk, w1)"
    by (cases "resolveStorageKey param d w")
  obtain res2 w2 where rc: "resolveContent sv param d sk w1 = (res2, w2)"
    by (cases "resolveContent sv param d sk w1")
  from assms(2) rs rc obtain e2 where e2: "res2 = Inl e2"
    by (cases res2) auto
  have "w2 = w1"
    using resolveContent_err rc e2 by blast
  then show ?thesis
    using assms(1) rs rc e2 by (simp add: indexResource_def)
qed

lemma resolveContent_indexed:
  assumes "resolveContent sv param d sk w = (res, w2)"
  shows "k_indexed w2 = k_indexed w" and "k_saved w2 = k_saved w"
  using assms
  by (auto simp: resolveContent_def minio_uploadData_def Let_def
      split: if_splits sum.splits prod.splits option.splits)

lemma ingestContent_indexed:
  assumes "ingestContent sv usr param d content w = (res, w3)"
  shows "k_indexed w3 = k_indexed w \<or>
         (\<exists>doc. k_indexed w3 = k_indexed w @ [doc] \<and> doc_resourceId doc = p_resourceId param)"
  using assms
  by (auto simp: ingestContent_def Let_def split: if_splits sum.splits option.splits)

lemma ingestContent_err_saved:
  assumes "ingestContent sv usr param d content w = (Inl e, w3)"
  shows "k_saved w3 = k_saved w"
  using assms
  by (auto simp: ingestContent_def Let_def split: if_splits sum.splits option.splits)

lemma completeResource_indexed:
  assumes "completeResource sv usr param d key content title w = (res, w')"
  shows "k_indexed w' = k_indexed w" and "k_saved w' = k_saved w"
  using assms
  by (auto simp: completeResource_def Let_def split: option.splits)

lemma completeResource_succeeds:
  assumes "p_resourceId param = Some rid"
      and "\<exists>r \<in> set (k_resources w). ownResource rid usr r"
  shows "fst (completeResource sv usr param d key content title w) = Inr ()"
proof -
  obtain rs where
    "updateFirst (ownResource rid usr) (finishedRow sv d key content title) (k_resources w) = Some rs"
    using assms(2) updateFirst_Some_iff [of "ownResource rid usr" _ "k_resources w"] by blast
  then show ?thesis
    using assms(1) by (simp add: completeResource_def Let_def)
qed

text \<open>One run of \<open>indexResource\<close> hands at most one document to the indexer; a run that
  throws although the user's row exists has saved no chunk list.\<close>

lemma indexResource_indexed:
  "k_indexed (snd (indexResource sv usr param w)) = k_indexed w \<or>
   (\<exists>doc. k_indexed (snd (indexResource sv usr param w)) = k_indexed w @ [doc] \<and>
          doc_resourceId doc = p_resourceId param)"
proof (cases "p_data param")
  case None
  then show ?thesis by (simp add: indexResource_def)
next
  case (Some d)
  obtain sk w1 where rs: "resolveStorageKey param d w = (sk, w1)"
    by (cases "resolveStorageKey param d w")
  have i1: "k_indexed w1 = k_indexed w"
    using resolveStorageKey_frame(3) [of param d w] rs by simp
  obtain res2 w2 where rc: "resolveContent sv param d sk w1 = (res2, w2)"
    by (cases "resolveContent sv param d sk w1")
  have i2: "k_indexed w2 = k_indexed w"
    using resolveContent_indexed(1) [OF rc] i1 by simp
  show ?thesis
  proof (cases res2)
    case (Inl e2)
    with Some rs rc i2 show ?thesis by (simp add: indexResource_def)
  next
    case (Inr t)
    obtain key content title where t: "t = (key, content, title)"
      by (cases t)
    obtain res3 w3 where ic: "ingestContent sv usr param d content w2 = (res3, w3)"
      by (cases "ingestContent sv usr param d content w2")
    have i3: "k_indexed w3 = k_indexed w \<or>
         (\<exists>doc. k_indexed w3 = k_indexed w @ [doc] \<and> doc_resourceId doc = p_resourceId param)"
      using ingestContent_indexed [OF ic] i2 by simp
    show ?thesis
    proof (cases res3)
      case (Inl e3)
      with Some rs rc Inr t ic i3 show ?thesis by (simp add: indexResource_def)
    next
      case (Inr u)
      obtain res4 w4 where
        cr: "completeResource sv usr param d key content title w3 = (res4, w4)"
        by (cases "completeResource sv usr param d key content title w3")
      have "k_indexed w4 = k_indexed w3"
        using completeResource_indexed(1) [OF cr] .
      moreover have "snd (indexResource sv usr param w) = w4"
        using Some rs rc \<open>res2 = Inr t\<close> t ic Inr cr by (simp add: indexResource_def)
      ultimately show ?thesis using i3 by simp
    qed
  qed
qed

lemma indexResource_err_saved:
  assumes run: "indexResource sv usr param w = (Inl e, w')"
      and rid: "p_resourceId param = Some rid"
      and row: "\<exists>r \<in> set (k_resources w). ownResource rid usr r"
  shows "k_saved w' = k_saved w"
proof (cases "p_data param")
  case None
  with run show ?thesis by (simp add: indexResource_def)
next
  case (Some d)
  obtain sk w1 where rs: "resolveStorageKey param d w = (sk, w1)"
    by (cases "resolveStorageKey param d w")
  have s1: "k_saved w1 = k_saved w" and r1: "k_resources w1 = k_resources w"
    using resolveStorageKey_frame(4) [of param d w] resolveStorageKey_frame(1) [of param d w] rs
    by simp_all
  obtain res2 w2 where rc: "resolveContent sv param d sk w1 = (res2, w2)"
    by (cases "resolveContent sv param d sk w1")
  have s2: "k_saved w2 = k_saved w"
    using resolveContent_indexed(2) [OF rc] s1 by simp
  show ?thesis
  proof (cases res2)
    case (Inl e2)
    with run Some rs rc s2 show ?thesis by (simp add: indexResource_def)
  next
    case (Inr t)
    obtain key content title where t: "t = (key, content, title)"
      by (cases t)
    have r2: "k_resources w2 = k_resources w"
      using resolveContent_ok(3) rc Inr t r1 by simp
    obtain res3 w3 where ic: "ingestContent sv usr param d content w2 = (res3, w3)"
      by (cases "ingestContent sv usr param d content w2")
    have r3: "k_resources w3 = k_resources w"
      using ingestContent_frame(1) [OF ic] r2 by simp
    show ?thesis
    proof (cases res3)
      case (Inl e3)
      with run Some rs rc Inr t ic have "w' = w3"
        by (simp add: indexResource_def)
      moreover have "k_saved w3 = k_saved w2"
        using ingestContent_err_saved ic Inl by blast
      ultimately show ?thesis using s2 by simp
    next
      case (Inr u)
      with run Some rs rc \<open>res2 = Inr t\<close> t ic
      have "completeResource sv usr param d key content title w3 = (Inl e, w')"
        by (simp add: indexResource_def)
      moreover have "fst (completeResource sv usr param d key content title w3) = Inr ()"
        using completeResource_succeeds [OF rid] row r3 by simp
      ultimately show ?thesis by simp
    qed
  qed
qed

text \<open>
  C1. When \<open>indexResource\<close> returns without an exception, the request carries \<open>data\<close> and a
  resource id; with \<open>key\<close> the storage key that was resolved (the request's or the
  metadata's, or the parsed document of the weblink) when there is one and
  \<open>resource/<resourceId>\<close> otherwise, the blob store holds the content under \<open>key\<close>, and the
  resource table is the old one after one update of the user's row, which sets
  \<open>storageKey\<close> to \<open>key\<close>, \<open>wordCount\<close> to the word count of that content, \<open>indexStatus\<close>
  to \<open>finish\<close> and \<open>meta\<close> to \<open>{url, title, storageKey}\<close> with \<open>storageKey = key\<close>.
\<close>

theorem index_success_single_update:
  assumes ok: "fst (indexResource sv usr param w) = Inr ()"
  shows "\<exists>d rid key content title.
           p_data param = Some d \<and> p_resourceId param = Some rid \<and>
           key = (if truthy (fst (resolveStorageKey param d w))
                  then the (fst (resolveStorageKey param d w)) else ''resource/'' @ rid) \<and>
           k_blobs (snd (indexResource sv usr param w)) key = Some content \<and>
           updateFirst (ownResource rid usr)
             (\<lambda>r. r\<lparr> r_storageKey := Some key,
                       r_wordCount := Some (readingTimeWords sv content),
                       r_indexStatus := ''finish'',
                       r_meta := Some \<lparr> rm_url = rm_url d, rm_linkId = None, rm_title = title,
                                         rm_storageKey = Some key \<rparr> \<rparr>)
             (k_resources w) = Some (k_resources (snd (indexResource sv usr param w)))"
proof -
  define w' where "w' = snd (indexResource sv usr param w)"
  have run: "indexResource sv usr param w = (Inr (), w')"
    using ok by (simp add: w'_def prod_eq_iff)
  from run obtain d where d: "p_data param = Some d"
    by (auto simp: indexResource_def split: option.splits)
  obtain sk w1 where rs: "resolveStorageKey param d w = (sk, w1)"
    by (cases "resolveStorageKey param d w")
  from run d rs obtain key content title w2 where
    rc: "resolveContent sv param d sk w1 = (Inr (key, content, title), w2)"
    by (auto simp: indexResource_def split: sum.splits prod.splits)
  from run d rs rc obtain w3 where
    ic: "ingestContent sv usr param d content w2 = (Inr (), w3)"
    and cr: "completeResource sv usr param d key content title w3 = (Inr (), w')"
    by (auto simp: indexResource_def split: sum.splits prod.splits)
  from completeResource_ok [OF cr] obtain rid where
    rid: "p_resourceId param = Some rid"
    and upd: "updateFirst (ownResource rid usr) (finishedRow sv d key content title)
                (k_resources w3) = Some (k_resources w')"
    and blobs': "k_blobs w' = k_blobs w3"
    by blast
  have res3: "k_resources w3 = k_resources w"
    using ingestContent_frame(1) [OF ic] resolveContent_ok(3) [OF rc]
      resolveStorageKey_frame(1) [of param d w] rs by simp
  have blob: "k_blobs w' key = Some content"
    using blobs' ingestContent_frame(2) [OF ic] resolveContent_ok(2) [OF rc] by simp
  have key: "key = (if truthy (fst (resolveStorageKey param d w))
                  then the (fst (resolveStorageKey param d w)) else ''resource/'' @ rid)"
    using resolveContent_ok(1) [OF rc] rs rid by (simp add: templateText_def)
  have row: "finishedRow sv d key content title =
      (\<lambda>r. r\<lparr> r_storageKey := Some key,
                r_wordCount := Some (readingTimeWords sv content),
                r_indexStatus := ''finish'',
                r_meta := Some \<lparr> rm_url = rm_url d, rm_linkId = None, rm_title = title,
                                  rm_storageKey = Some key \<rparr> \<rparr>)"
    by (rule ext) (simp add: finishedRow_def)
  show ?thesis
    unfolding w'_def [symmetric] using d rid key blob upd res3 row by auto
qed

theorem index_success_single_update_witness:
  "fst (indexResource exampleServices exampleUser exampleRequest exampleWorld) = Inr () \<and>
   (\<exists>key content title.
       k_blobs (snd (indexResource exampleServices exampleUser exampleRequest exampleWorld)) key
         = Some content \<and>
       updateFirst (ownResource ''r1'' exampleUser)
         (\<lambda>r. r\<lparr> r_storageKey := Some key,
                   r_wordCount := Some (readingTimeWords exampleServices content),
                   r_indexStatus := ''finish'',
                   r_meta := Some \<lparr> rm_url = Some ''https://example.com'', rm_linkId = None,
                                     rm_title = title, rm_storageKey = Some key \<rparr> \<rparr>)
         (k_resources exampleWorld)
       = Some (k_resources (snd (indexResource exampleServices exampleUser exampleRequest
                                   exampleWorld))))"
proof -
  have h: "fst (indexResource exampleServices exampleUser exampleRequest exampleWorld) = Inr ()"
    by (simp add: indexResource_def resolveStorageKey_def resolveContent_def ingestContent_def
        completeResource_def finishedRow_def ownResource_def minio_uploadData_def logTo_def
        templateText_def or_else_def exampleServices_def exampleUser_def exampleRequest_def
        exampleWorld_def exampleResource_def Let_def)
  have d: "p_data exampleRequest = Some \<lparr> rm_url = Some ''https://example.com'',
      rm_linkId = None, rm_title = None, rm_storageKey = None \<rparr>"
    and r: "p_resourceId exampleRequest = Some ''r1''"
    by (simp_all add: exampleRequest_def)
  show ?thesis
    using index_success_single_update [OF h] h d r by auto
qed

text \<open>
  C2 as stated fails for a step after the hand-over to the indexer: here
  \<open>saveDataForUser\<close> throws. The job ends with that error and the row is marked
  \<open>failed\<close>, but the document of the resource has been submitted to \<open>indexContent\<close>.
\<close>

theorem ingestion_failure_after_indexing_counterexample:
  "fst (finalizeResource
          (exampleServices\<lparr>saveDataForUser_throws := (\<lambda>uid chunks. Some (ExternalError ''store''))\<rparr>)
          exampleJob exampleWorld) = Inl (ExternalError ''store'') \<and>
   k_resources (snd (finalizeResource
          (exampleServices\<lparr>saveDataForUser_throws := (\<lambda>uid chunks. Some (ExternalError ''store''))\<rparr>)
          exampleJob exampleWorld)) = [exampleResource\<lparr>r_indexStatus := ''failed''\<rparr>] \<and>
   k_indexed exampleWorld = [] \<and>
   k_indexed (snd (finalizeResource
          (exampleServices\<lparr>saveDataForUser_throws := (\<lambda>uid chunks. Some (ExternalError ''store''))\<rparr>)
          exampleJob exampleWorld)) =
     [\<lparr> doc_pageContent = ''page text'', doc_url = Some ''https://example.com'',
        doc_title = None, doc_collectionId = Some ''c1'', doc_resourceId = Some ''r1'' \<rparr>]"
  by (simp add: finalizeResource_def indexResource_def resolveStorageKey_def resolveContent_def
      ingestContent_def ownResource_def minio_uploadData_def logTo_def templateText_def
      or_else_def exampleServices_def exampleUser_def exampleRequest_def exampleJob_def
      exampleWorld_def exampleResource_def Let_def)

text \<open>
  C2, amended. Let the user of the job exist and own a row for the resource, and let
  \<open>indexResource\<close> throw \<open>err\<close>. Then \<open>finalizeResource\<close> ends with the same \<open>err\<close>,
  raised after the status write: the resource table of the final state is the old one
  with \<open>indexStatus = failed\<close> written on the user's row. There is no retry: the final
  state is the state that the one run of \<open>indexResource\<close> left, with the error logged and
  the status written, so at most one document, that of this resource, has been handed to
  \<open>indexContent\<close>, and no chunk list has been saved for the user. If the throw came from
  the resolution of the content (the request has no \<open>data\<close>, or the download, the
  extraction or the upload threw), nothing was submitted to the indexer in this run:
  \<open>k_indexed\<close> and \<open>k_saved\<close> are as before.
\<close>

theorem ingestion_failure_marks_failed:
  assumes usr: "find (\<lambda>u. u_id u = f_userId fp) (k_users w) = Some usr"
      and rid: "p_resourceId (f_param fp) = Some rid"
      and row: "\<exists>r \<in> set (k_resources w). ownResource rid usr r"
      and throws: "fst (indexResource sv usr (f_param fp) w) = Inl err"
  shows "fst (finalizeResource sv fp w) = Inl err \<and>
         updateFirst (ownResource rid usr) (\<lambda>r. r\<lparr>r_indexStatus := ''failed''\<rparr>) (k_resources w)
           = Some (k_resources (snd (finalizeResource sv fp w))) \<and>
         (\<exists>r \<in> set (k_resources (snd (finalizeResource sv fp w))).
             ownResource rid usr r \<and> r_indexStatus r = ''failed'') \<and>
         ((case p_data (f_param fp) of
             None \<Rightarrow> True
           | Some d \<Rightarrow>
               isl (fst (resolveContent sv (f_param fp) d
                           (fst (resolveStorageKey (f_param fp) d w))
                           (snd (resolveStorageKey (f_param fp) d w))))) \<longrightarrow>
          k_indexed (snd (finalizeResource sv fp w)) = k_indexed w \<and>
          k_saved (snd (finalizeResource sv fp w)) = k_saved w) \<and>
         snd (finalizeResource sv fp w) =
           (logTo (LogError ''finalize resource error'') (snd (indexResource sv usr (f_param fp) w)))
             \<lparr>k_resources := k_resources (snd (finalizeResource sv fp w))\<rparr> \<and>
         (k_indexed (snd (finalizeResource sv fp w)) = k_indexed w \<or>
          (\<exists>doc. k_indexed (snd (finalizeResource sv fp w)) = k_indexed w @ [doc] \<and>
                 doc_resourceId doc = Some rid)) \<and>
         k_saved (snd (finalizeResource sv fp w)) = k_saved w"
proof -
  define w1 where "w1 = snd (indexResource sv usr (f_param fp) w)"
  have run: "indexResource sv usr (f_param fp) w = (Inl err, w1)"
    using throws by (simp add: w1_def prod_eq_iff)
  have res1: "k_resources w1 = k_resources w"
    using indexResource_err_resources [OF run] .
  from row obtain rs where
    upd: "updateFirst (ownResource rid usr) (\<lambda>r. r\<lparr>r_indexStatus := ''failed''\<rparr>) (k_resources w)
            = Some rs"
    using updateFirst_Some_iff [of "ownResource rid usr" _ "k_resources w"] by blast
  have fin: "finalizeResource sv fp w =
      (Inl err, (logTo (LogError ''finalize resource error'') w1)\<lparr>k_resources := rs\<rparr>)"
    using usr run rid upd res1 by (simp add: finalizeResource_def Let_def)
  from updateFirst_Some_member [OF upd] obtain r0 where
    r0: "r0 \<in> set (k_resources w)" "ownResource rid usr r0"
        "r0\<lparr>r_indexStatus := ''failed''\<rparr> \<in> set rs"
    by blast
  have marked: "\<exists>r \<in> set rs. ownResource rid usr r \<and> r_indexStatus r = ''failed''"
  proof
    show "r0\<lparr>r_indexStatus := ''failed''\<rparr> \<in> set rs" by (rule r0(3))
    show "ownResource rid usr (r0\<lparr>r_indexStatus := ''failed''\<rparr>) \<and>
          r_indexStatus (r0\<lparr>r_indexStatus := ''failed''\<rparr>) = ''failed''"
      using r0(2) by (simp add: ownResource_def)
  qed
  have untouched: "k_indexed w1 = k_indexed w \<and> k_saved w1 = k_saved w"
    if early: "case p_data (f_param fp) of
                 None \<Rightarrow> True
               | Some d \<Rightarrow>
                   isl (fst (resolveContent sv (f_param fp) d
                               (fst (resolveStorageKey (f_param fp) d w))
                               (snd (resolveStorageKey (f_param fp) d w))))"
  proof (cases "p_data (f_param fp)")
    case None
    then show ?thesis by (simp add: w1_def indexResource_def)
  next
    case (Some d)
    with early have "w1 = snd (resolveStorageKey (f_param fp) d w)"
      unfolding w1_def by (simp add: indexResource_resolution_err)
    then show ?thesis by (simp add: resolveStorageKey_frame)
  qed
  have once: "snd (finalizeResource sv fp w) =
           (logTo (LogError ''finalize resource error'') (snd (indexResource sv usr (f_param fp) w)))
             \<lparr>k_resources := k_resources (snd (finalizeResource sv fp w))\<rparr>"
    using fin by (simp add: w1_def)
  have indexed: "k_indexed w1 = k_indexed w \<or>
          (\<exists>doc. k_indexed w1 = k_indexed w @ [doc] \<and> doc_resourceId doc = Some rid)"
    using indexResource_indexed [of sv usr "f_param fp" w] rid by (simp add: w1_def)
  have saved: "k_saved w1 = k_saved w"
    using indexResource_err_saved [OF run rid row] .
  have fin_indexed: "k_indexed (snd (finalizeResource sv fp w)) = k_indexed w1"
    and fin_saved: "k_saved (snd (finalizeResource sv fp w)) = k_saved w1"
    and fin_res: "k_resources (snd (finalizeResource sv fp w)) = rs"
    and fin_err: "fst (finalizeResource sv fp w) = Inl err"
    using fin by simp_all
  show ?thesis
    unfolding fin_indexed fin_saved fin_res fin_err
    using upd marked untouched indexed saved once [unfolded fin_res] by simp
qed

theorem ingestion_failure_marks_failed_witness:
  "find (\<lambda>u. u_id u = f_userId exampleJob) (k_users exampleWorld) = Some exampleUser \<and>
   p_resourceId (f_param exampleJob) = Some ''r1'' \<and>
   (\<exists>r \<in> set (k_resources exampleWorld). ownResource ''r1'' exampleUser r) \<and>
   fst (indexResource
          (exampleServices\<lparr>crawlFromRemoteReader := (\<lambda>url. Inl (ExternalError ''timeout''))\<rparr>)
          exampleUser (f_param exampleJob) exampleWorld) = Inl (ExternalError ''timeout'') \<and>
   fst (finalizeResource
          (exampleServices\<lparr>crawlFromRemoteReader := (\<lambda>url. Inl (ExternalError ''timeout''))\<rparr>)
          exampleJob exampleWorld) = Inl (ExternalError ''timeout'') \<and>
   (\<exists>r \<in> set (k_resources (snd (finalizeResource
          (exampleServices\<lparr>crawlFromRemoteReader := (\<lambda>url. Inl (ExternalError ''timeout''))\<rparr>)
          exampleJob exampleWorld))). ownResource ''r1'' exampleUser r \<and> r_indexStatus r = ''failed'') \<and>
   k_indexed (snd (finalizeResource
          (exampleServices\<lparr>crawlFromRemoteReader := (\<lambda>url. Inl (ExternalError ''timeout''))\<rparr>)
          exampleJob exampleWorld)) = k_indexed exampleWorld \<and>
   k_saved (snd (finalizeResource
          (exampleServices\<lparr>crawlFromRemoteReader := (\<lambda>url. Inl (ExternalError ''timeout''))\<rparr>)
          exampleJob exampleWorld)) = k_saved exampleWorld"
proof -
  let ?sv = "exampleServices\<lparr>crawlFromRemoteReader := (\<lambda>url. Inl (ExternalError ''timeout''))\<rparr>"
  have h1: "find (\<lambda>u. u_id u = f_userId exampleJob) (k_users exampleWorld) = Some exampleUser"
    by (simp add: exampleJob_def exampleWorld_def exampleUser_def)
  have h2: "p_resourceId (f_param exampleJob) = Some ''r1''"
    by (simp add: exampleJob_def exampleRequest_def)
  have h3: "\<exists>r \<in> set (k_resources exampleWorld). ownResource ''r1'' exampleUser r"
    by (simp add: exampleWorld_def exampleResource_def exampleUser_def ownResource_def)
  have h4: "fst (indexResource ?sv exampleUser (f_param exampleJob) exampleWorld)
              = Inl (ExternalError ''timeout'')"
    by (simp add: indexResource_def resolveStorageKey_def resolveContent_def or_else_def
        exampleServices_def exampleJob_def exampleRequest_def exampleWorld_def Let_def)
  have early: "case p_data (f_param exampleJob) of
                 None \<Rightarrow> True
               | Some d \<Rightarrow>
                   isl (fst (resolveContent ?sv (f_param exampleJob) d
                               (fst (resolveStorageKey (f_param exampleJob) d exampleWorld))
                               (snd (resolveStorageKey (f_param exampleJob) d exampleWorld))))"
    by (simp add: resolveStorageKey_def resolveContent_def or_else_def
        exampleServices_def exampleJob_def exampleRequest_def exampleWorld_def Let_def)
  show ?thesis
    using ingestion_failure_marks_failed [OF h1 h2 h3 h4] h1 h2 h3 h4 early by blast
qed

text \<open>
  C10. When no user has the \<open>userId\<close> of the job, \<open>finalizeResource\<close> logs a warning and
  returns normally: nothing but the log changes, so the resource table, and with it the
  \<open>indexStatus\<close> of the resource, is as before, and no error reaches the queue.
\<close>

theorem finalize_unknown_user_is_noop:
  assumes "find (\<lambda>u. u_id u = f_userId fp) (k_users w) = None"
  shows "finalizeResource sv fp w = (Inr (), w\<lparr>k_logs := k_logs w @ [LogWarn ''User not found'']\<rparr>) \<and>
         k_resources (snd (finalizeResource sv fp w)) = k_resources w"
  using assms by (simp add: finalizeResource_def logTo_def)

theorem finalize_unknown_user_is_noop_witness:
  "find (\<lambda>u. u_id u = f_userId (exampleJob\<lparr>f_userId := 9\<rparr>)) (k_users exampleWorld) = None \<and>
   finalizeResource exampleServices (exampleJob\<lparr>f_userId := 9\<rparr>) exampleWorld =
     (Inr (), exampleWorld\<lparr>k_logs := [LogWarn ''User not found'']\<rparr>) \<and>
   map r_indexStatus
     (k_resources (snd (finalizeResource exampleServices (exampleJob\<lparr>f_userId := 9\<rparr>) exampleWorld)))
     = [''processing'']"
proof -
  have h: "find (\<lambda>u. u_id u = f_userId (exampleJob\<lparr>f_userId := 9\<rparr>)) (k_users exampleWorld) = None"
    by (simp add: exampleWorld_def exampleUser_def)
  have logs: "k_logs exampleWorld = []"
    and rows: "map r_indexStatus (k_resources exampleWorld) = [''processing'']"
    by (simp_all add: exampleWorld_def exampleResource_def)
  show ?thesis
    using finalize_unknown_user_is_noop [OF h, of exampleServices] h logs rows by simp
qed

section \<open>Resources and collections: properties\<close>

text \<open>
  C3. A \<open>createResource\<close> call for a \<open>weblink\<close> whose request has no \<open>data\<close>, or whose
  \<open>data\<close> has neither a \<open>url\<close> nor a \<open>linkId\<close>, fails with a \<open>BadRequestException\<close>;
  nothing but the log differs in the state it leaves: no resource row, no collection and
  no ingestion job has been added.
\<close>

theorem weblink_without_source_rejected:
  assumes weblink: "p_resourceType param = Some ''weblink''"
      and nosource: "case p_data param of
                       None \<Rightarrow> True
                     | Some d \<Rightarrow> \<not> truthy (rm_url d) \<and> \<not> truthy (rm_linkId d)"
  shows "(\<exists>msg. fst (createResource rid cid now usr param w) = Inl (BadRequestException msg)) \<and>
         snd (createResource rid cid now usr param w) =
           w\<lparr>k_logs := k_logs (snd (createResource rid cid now usr param w))\<rparr> \<and>
         k_resources (snd (createResource rid cid now usr param w)) = k_resources w \<and>
         k_collections (snd (createResource rid cid now usr param w)) = k_collections w \<and>
         k_queue (snd (createResource rid cid now usr param w)) = k_queue w"
  using assms
  by (cases "p_data param") (simp_all add: createResource_def logTo_def Let_def)

theorem weblink_without_source_rejected_witness:
  "p_resourceType (exampleRequest\<lparr>p_data := Some \<lparr> rm_url = None, rm_linkId = Some [],
      rm_title = Some ''Page'', rm_storageKey = None \<rparr>\<rparr>) = Some ''weblink'' \<and>
   fst (createResource ''r2'' ''c2'' 7 exampleUser
          (exampleRequest\<lparr>p_data := Some \<lparr> rm_url = None, rm_linkId = Some [],
             rm_title = Some ''Page'', rm_storageKey = None \<rparr>\<rparr>) exampleWorld)
     = Inl (BadRequestException ''url or linkId is required'') \<and>
   snd (createResource ''r2'' ''c2'' 7 exampleUser
          (exampleRequest\<lparr>p_data := Some \<lparr> rm_url = None, rm_linkId = Some [],
             rm_title = Some ''Page'', rm_storageKey = None \<rparr>\<rparr>) exampleWorld)
     = exampleWorld"
proof -
  let ?param = "exampleRequest\<lparr>p_data := Some \<lparr> rm_url = None, rm_linkId = Some [],
      rm_title = Some ''Page'', rm_storageKey = None \<rparr>\<rparr>"
  have h1: "p_resourceType ?param = Some ''weblink''"
    by (simp add: exampleRequest_def)
  have h2: "case p_data ?param of
              None \<Rightarrow> True
            | Some d \<Rightarrow> \<not> truthy (rm_url d) \<and> \<not> truthy (rm_linkId d)"
    by simp
  have msg: "fst (createResource ''r2'' ''c2'' 7 exampleUser ?param exampleWorld)
     = Inl (BadRequestException ''url or linkId is required'')"
    by (simp add: createResource_def exampleRequest_def Let_def)
  have logs: "k_logs (snd (createResource ''r2'' ''c2'' 7 exampleUser ?param exampleWorld))
     = k_logs exampleWorld"
    by (simp add: createResource_def exampleRequest_def Let_def)
  have "snd (createResource ''r2'' ''c2'' 7 exampleUser ?param exampleWorld) = exampleWorld"
    using weblink_without_source_rejected [OF h1 h2, of "''r2''" "''c2''" 7 exampleUser exampleWorld]
      logs by simp
  then show ?thesis using h1 msg by simp
qed

text \<open>
  C7. The user with id 2 upserts the collection \<open>c1\<close>, which belongs to the user with
  id 1: the call returns the changed row, and the collection of the other user now has the
  new title and is public.
\<close>

theorem upsert_collection_ignores_owner:
  "upsertCollection ''c2'' 7 exampleIntruder
      \<lparr> uc_collectionId = Some ''c1'', uc_title = Some ''Taken over'', uc_description = None,
        uc_isPublic = Some True \<rparr> exampleWorld =
     (exampleCollection\<lparr>c_title := Some ''Taken over'', c_isPublic := Some True\<rparr>,
      exampleWorld\<lparr>k_collections :=
        [exampleCollection\<lparr>c_title := Some ''Taken over'', c_isPublic := Some True\<rparr>]\<rparr>) \<and>
   c_userId exampleCollection \<noteq> u_id exampleIntruder"
  by (simp add: upsertCollection_def exampleWorld_def exampleCollection_def exampleIntruder_def
      Let_def)

text \<open>The sibling operations on a collection and on a resource do check the owner: a
  soft-delete by another user fails with \<open>UnauthorizedException\<close> and changes nothing.\<close>

lemma deleteCollection_checks_owner:
  "find (\<lambda>c. c_collectionId c = cid \<and> c_deletedAt c = None) (k_collections w) = Some coll \<Longrightarrow>
   c_userId coll \<noteq> u_id usr \<Longrightarrow>
   deleteCollection now usr cid w = (Inl UnauthorizedException, w)"
  by (simp add: deleteCollection_def)

lemma deleteResource_checks_owner:
  "find (\<lambda>r. r_resourceId r = rid \<and> r_deletedAt r = None) (k_resources w) = Some res \<Longrightarrow>
   r_userId res \<noteq> u_id usr \<Longrightarrow>
   deleteResource sv now usr rid w = (Inl UnauthorizedException, w)"
  by (simp add: deleteResource_def)

text \<open>\<open>updateResource\<close> by a user who does not own the resource leaves the row as it is
  and fails, with the ORM's error for a missing record; the content of the request has
  been written to the blob store under the key of the request by then.\<close>

lemma updateResource_by_other_user:
  "updateResource exampleServices exampleIntruder
      (exampleRequest\<lparr>p_storageKey := Some ''resource/r1'', p_content := Some ''overwritten''\<rparr>)
      exampleWorld =
     (Inl (RecordNotFound ''resource''),
      exampleWorld\<lparr>k_blobs := [''resource/r1'' \<mapsto> ''overwritten'']\<rparr>)"
  by (simp add: updateResource_def minio_uploadData_def ownResource_def exampleServices_def
      exampleIntruder_def exampleRequest_def exampleWorld_def exampleResource_def Let_def)

text \<open>
  C8. The resource \<open>r1\<close> of the collection \<open>c1\<close> is soft-deleted. Listing the resources of
  \<open>c1\<close> returns it all the same, while the listing without a \<open>collectionId\<close> leaves
  it out.
\<close>

theorem list_by_collection_returns_deleted:
  "listResources \<lparr> lr_resourceId = None, lr_collectionId = Some ''c1'', lr_page = Some 1,
                   lr_pageSize = Some 10 \<rparr>
      (exampleWorld\<lparr>k_resources := [exampleResource\<lparr>r_deletedAt := Some 5\<rparr>]\<rparr>)
     = Inr [exampleResource\<lparr>r_deletedAt := Some 5\<rparr>] \<and>
   listResources \<lparr> lr_resourceId = None, lr_collectionId = None, lr_page = Some 1,
                   lr_pageSize = Some 10 \<rparr>
      (exampleWorld\<lparr>k_resources := [exampleResource\<lparr>r_deletedAt := Some 5\<rparr>]\<rparr>)
     = Inr []"
  by (simp add: listResources_def prismaPage_def resourcesByUpdatedAtDesc_def exampleWorld_def
      exampleCollection_def exampleResource_def)

end
